theory Spec2Isabelle
  imports Complex_Main "HOL-Library.Multiset"
begin

section \<open>JavaScript values\<close>

text \<open>
  Both servers exchange JSON texts. A parsed message, and every object literal handed to
  \<^verbatim>\<open>JSON.stringify\<close>, is a value of \<open>jsval\<close>; an object is its property table, with the
  property that a lookup finds listed first. \<open>JFunction\<close> is a function object: no JSON
  text parses to one, but reading an inherited property of a plain object can give one. A
  property holding \<open>JUndefined\<close> or \<open>JFunction\<close> is left out of the text by
  \<^verbatim>\<open>JSON.stringify\<close>. Numbers are only tested against zero and passed on, never computed
  with.
\<close>

datatype jsval =
    JUndefined
  | JFunction
  | JNull
  | JBool bool
  | JNum rat
  | JStr string
  | JArr "jsval list"
  | JObj "(string \<times> jsval) list"

fun truthy :: "jsval \<Rightarrow> bool" where
  "truthy JUndefined = False"
| "truthy JFunction = True"
| "truthy JNull = False"
| "truthy (JBool b) = b"
| "truthy (JNum n) = (n \<noteq> 0)"
| "truthy (JStr s) = (s \<noteq> [])"
| "truthy (JArr xs) = True"
| "truthy (JObj kvs) = True"

fun nullish :: "jsval \<Rightarrow> bool" where
  "nullish JUndefined = True"
| "nullish JNull = True"
| "nullish v = False"

text \<open>
  \<^verbatim>\<open>v.k\<close> for a value that is neither \<^verbatim>\<open>null\<close> nor \<^verbatim>\<open>undefined\<close>: the property of
  an object, \<^verbatim>\<open>undefined\<close> when it is missing or when \<open>v\<close> is a primitive or an array
  (none of the names the handlers read is an inherited property).
\<close>

fun js_prop :: "jsval \<Rightarrow> string \<Rightarrow> jsval" where
  "js_prop (JObj kvs) k = (case map_of kvs k of None \<Rightarrow> JUndefined | Some v \<Rightarrow> v)"
| "js_prop v k = JUndefined"

datatype exn = TypeError string | Error string

fun message :: "exn \<Rightarrow> string" where
  "message (TypeError m) = m"
| "message (Error m) = m"

text \<open>
  A handler either returns or throws; what it did to the state and what it had sent
  before the throw stays done.
\<close>

datatype 'a outcome = Returned 'a | Threw exn 'a

section \<open>Sockets, effects and the connection state\<close>

datatype ready_state = CONNECTING | OPEN | CLOSING | CLOSED

text \<open>
  The socket library is not part of the repository. Of a socket the handlers read
  \<^verbatim>\<open>readyState\<close> and call \<^verbatim>\<open>send\<close>; whether a call of \<^verbatim>\<open>send\<close> throws is the
  library's decision, given here by \<open>sendFails\<close>: \<open>Some m\<close> when \<^verbatim>\<open>send\<close> throws an
  \<^verbatim>\<open>Error\<close> with message \<open>m\<close>, the same for every call made by one handler run.
\<close>

record socket =
  readyState :: ready_state
  sendFails :: "string option"

text \<open>
  What a handler does to the outside, in program order. The first number names the
  connection by its client socket, the key of \<^verbatim>\<open>clientMeta\<close>:
  \<open>ToClient k v\<close> is \<^verbatim>\<open>ws.send(JSON.stringify(v))\<close> having returned,
  \<open>ToDeriv k v\<close> is \<^verbatim>\<open>derivWs.send(JSON.stringify(v))\<close> having returned (what the
  library then writes on a socket that is not open is its own matter),
  \<open>CloseDeriv k\<close> is \<^verbatim>\<open>derivWs.close()\<close>, and \<open>HttpReply r s v\<close> is
  \<^verbatim>\<open>res.status(s).json(v)\<close> on the response object \<open>r\<close>.
\<close>

datatype effect =
    ToClient nat jsval
  | ToDeriv nat jsval
  | CloseDeriv nat
  | HttpReply nat nat jsval

text \<open>
  \<^verbatim>\<open>pendingRequests\<close> is a plain object keyed by \<^verbatim>\<open>reqId\<close>; a resolver is the closure
  \<^verbatim>\<open>(resp) => res.json({ok:true, result: resp})\<close>, known by the response object it
  answers. The list is in insertion order.
\<close>

type_synonym pending = "(nat \<times> nat) list"

definition obj_set :: "nat \<Rightarrow> nat \<Rightarrow> pending \<Rightarrow> pending" where
  \<comment> \<open>\<^verbatim>\<open>obj[k] = v\<close>: an existing property keeps its place and takes the new value.\<close>
  "obj_set k v obj =
     (if k \<in> fst ` set obj then map (\<lambda>(k', v'). if k' = k then (k', v) else (k', v')) obj
      else obj @ [(k, v)])"

definition obj_delete :: "nat \<Rightarrow> pending \<Rightarrow> pending" where
  \<comment> \<open>\<^verbatim>\<open>delete obj[k]\<close>\<close>
  "obj_delete k obj = filter (\<lambda>(k', v'). k' \<noteq> k) obj"

definition entries :: "pending \<Rightarrow> pending" where
  \<comment> \<open>\<^verbatim>\<open>Object.entries(obj)\<close>: array-index keys (below \<open>2^32 - 1\<close>) in ascending order,
      then the other keys in insertion order.\<close>
  "entries obj =
     sort_key fst (filter (\<lambda>(k, v). k < 4294967295) obj) @
     filter (\<lambda>(k, v). \<not> k < 4294967295) obj"

text \<open>
  The \<open>meta\<close> object of a connection. \<^verbatim>\<open>sessionId\<close> is \<open>None\<close> for \<^verbatim>\<open>null\<close>,
  \<^verbatim>\<open>accountInfo\<close> is \<open>JNull\<close> or the account object. \<^verbatim>\<open>subscribed\<close> is a \<^verbatim>\<open>Set\<close>;
  \<^verbatim>\<open>add\<close> is \<open>insert\<close>, values being told apart by their content.
\<close>

record meta =
  sessionId :: "string option"
  derivWs :: "socket option"
  subscribed :: "jsval set"
  accountInfo :: jsval
  authorized :: bool
  pendingRequests :: pending

text \<open>
  One accepted client connection of \<^verbatim>\<open>wss.on('connection')\<close>: the client socket \<open>ws\<close>,
  the \<open>token\<close> read from the session store when the connection was made, and \<open>meta\<close>.
  \<^verbatim>\<open>meta.derivWs\<close> and the handlers' local \<^verbatim>\<open>derivWs\<close> are the same socket object; the
  field is \<^verbatim>\<open>null\<close> only between the creation of \<open>meta\<close> and the next statements of the
  connection handler.
\<close>

record conn =
  wsId :: nat
  ws :: socket
  token :: jsval
  meta :: meta

definition ws_sends :: "conn \<Rightarrow> jsval list \<Rightarrow> (conn \<times> effect list) outcome" where
  \<comment> \<open>The rest of a handler that only calls \<^verbatim>\<open>ws.send\<close> on each of \<open>vs\<close>, at least one,
      and returns: the first call throws, or none does.\<close>
  "ws_sends c vs =
     (case sendFails (ws c) of
        Some m \<Rightarrow> Threw (Error m) (c, [])
      | None \<Rightarrow> Returned (c, map (ToClient (wsId c)) vs))"

definition tick_event :: "jsval \<Rightarrow> jsval" where
  \<comment> \<open>the object both servers send to the client for an upstream tick message\<close>
  "tick_event msg =
     JObj [(''type'', JStr ''tick''),
           (''symbol'', js_prop (js_prop msg ''tick'') ''symbol''),
           (''quote'', js_prop (js_prop msg ''tick'') ''quote''),
           (''epoch'', js_prop (js_prop msg ''tick'') ''epoch'')]"

section \<open>The proxy with trading: messages from upstream\<close>

text \<open>
  The loop over \<^verbatim>\<open>Object.entries(meta.pendingRequests)\<close>: the entries are taken once,
  each resolver is called with the message and its key deleted. A resolver answers its
  HTTP caller with \<^verbatim>\<open>res.json\<close>, status 200; what it throws is swallowed.
\<close>

fun resolve_all :: "jsval \<Rightarrow> pending \<Rightarrow> pending \<times> effect list \<Rightarrow> pending \<times> effect list" where
  "resolve_all msg [] st = st"
| "resolve_all msg ((k, cb) # es) (pend, effs) =
     resolve_all msg es
       (obj_delete k pend,
        effs @ [HttpReply cb 200 (JObj [(''ok'', JBool True), (''result'', msg)])])"

definition derivWs_on_message :: "jsval option \<Rightarrow> conn \<Rightarrow> (conn \<times> effect list) outcome" where
  \<comment> \<open>\<open>data\<close> is \<open>None\<close> when \<^verbatim>\<open>JSON.parse\<close> throws. Nothing catches what the rest throws.\<close>
  "derivWs_on_message data c =
     (case data of
        None \<Rightarrow> Returned (c, [])
      | Some msg \<Rightarrow>
          if nullish msg then Threw (TypeError ''Cannot read properties of null or undefined'') (c, [])
          else if truthy (js_prop msg ''authorize'') then
            (if truthy (js_prop (js_prop msg ''authorize'') ''error'') then
               ws_sends c
                 [JObj [(''type'', JStr ''error''),
                        (''message'', js_prop (js_prop (js_prop msg ''authorize'') ''error'') ''message'')]]
             else
               (let info = JObj [(''loginid'', js_prop (js_prop msg ''authorize'') ''loginid''),
                                 (''currency'', js_prop (js_prop msg ''authorize'') ''currency''),
                                 (''balance'', js_prop (js_prop msg ''authorize'') ''balance'')];
                    c1 = c\<lparr>meta := (meta c)\<lparr>authorized := True, accountInfo := info\<rparr>\<rparr>
                in ws_sends c1
                     [JObj [(''type'', JStr ''authorized''), (''account'', info)],
                      JObj [(''type'', JStr ''balance''),
                            (''balance'', js_prop (js_prop msg ''authorize'') ''balance'')]]))
          else if truthy (js_prop msg ''tick'') then
            ws_sends c
              [tick_event msg]
          else if truthy (js_prop msg ''buy'') \<or> truthy (js_prop msg ''error'') then
            (case sendFails (ws c) of
               Some m \<Rightarrow> Threw (Error m) (c, [])
             | None \<Rightarrow>
                 (case resolve_all msg (entries (pendingRequests (meta c)))
                         (pendingRequests (meta c),
                          [ToClient (wsId c)
                             (JObj [(''type'', JStr ''buy_result''), (''result'', msg)])]) of
                    (pend, effs) \<Rightarrow>
                      Returned (c\<lparr>meta := (meta c)\<lparr>pendingRequests := pend\<rparr>\<rparr>, effs)))
          else Returned (c, []))"

text \<open>
  \<^verbatim>\<open>derivWs.send\<close> as the handlers call it: on \<^verbatim>\<open>null\<close> the call is a
  \<^verbatim>\<open>TypeError\<close>, otherwise the library decides.
\<close>

definition send_throws :: "socket option \<Rightarrow> exn option" where
  "send_throws d =
     (case d of
        None \<Rightarrow> Some (TypeError ''Cannot read properties of null or undefined'')
      | Some sock \<Rightarrow> (case sendFails sock of None \<Rightarrow> None | Some m \<Rightarrow> Some (Error m)))"

definition derivWs_on_open :: "conn \<Rightarrow> (conn \<times> effect list) outcome" where
  "derivWs_on_open c =
     (if truthy (token c) then
        (case send_throws (derivWs (meta c)) of
           Some e \<Rightarrow> Threw e (c, [])
         | None \<Rightarrow> Returned (c, [ToDeriv (wsId c) (JObj [(''authorize'', token c)])]))
      else Returned (c, []))"

section \<open>The proxy with trading: messages from the client\<close>

definition ws_on_message :: "jsval option \<Rightarrow> conn \<Rightarrow> conn \<times> effect list" where
  \<comment> \<open>The whole handler is inside \<^verbatim>\<open>try\<close>: what is thrown is logged, and what was done
      before stays done.\<close>
  "ws_on_message raw c =
     (case raw of
        None \<Rightarrow> (c, [])
      | Some msg \<Rightarrow>
          if nullish msg then (c, [])
          else if js_prop msg ''type'' = JStr ''subscribe'' \<and> truthy (js_prop msg ''symbol'') \<and>
                  (case derivWs (meta c) of None \<Rightarrow> False | Some d \<Rightarrow> readyState d = OPEN) then
            (let req = JObj [(''ticks'', js_prop msg ''symbol''), (''subscribe'', JNum 1)];
                 c1 = c\<lparr>meta := (meta c)\<lparr>subscribed := insert (js_prop msg ''symbol'')
                                                             (subscribed (meta c))\<rparr>\<rparr>
             in case send_throws (derivWs (meta c1)) of
                  Some e \<Rightarrow> (c1, [])
                | None \<Rightarrow>
                    (case sendFails (ws c1) of
                       Some m \<Rightarrow> (c1, [ToDeriv (wsId c1) req])
                     | None \<Rightarrow>
                         (c1, [ToDeriv (wsId c1) req,
                               ToClient (wsId c1)
                                 (JObj [(''type'', JStr ''subscribed''),
                                        (''symbol'', js_prop msg ''symbol'')])])))
          else (c, []))"

definition ws_on_close :: "conn \<Rightarrow> conn \<times> effect list" where
  \<comment> \<open>The registry's side of the handler is \<open>Map_delete\<close> below.\<close>
  "ws_on_close c =
     (case derivWs (meta c) of None \<Rightarrow> (c, []) | Some d \<Rightarrow> (c, [CloseDeriv (wsId c)]))"

section \<open>The proxy with trading: sessions, the registry and the HTTP routes\<close>

text \<open>
  \<^verbatim>\<open>sessionTokenStore\<close> is a plain object \<^verbatim>\<open>{}\<close>, written only under fresh uuids; the
  map \<open>store\<close> holds its own properties, the tokens stored. \<^verbatim>\<open>sessionTokenStore[sid]\<close>
  reads through the prototype chain: an id that is not stored but names a property of
  \<^verbatim>\<open>Object.prototype\<close> reads that property, \<^verbatim>\<open>Object.prototype\<close> itself for
  \<^verbatim>\<open>__proto__\<close> (an object without enumerable properties, written \<^verbatim>\<open>{}\<close>) and a
  function for the other names; any other id that is not stored reads \<^verbatim>\<open>undefined\<close>.
  \<^verbatim>\<open>clientMeta\<close> is a \<^verbatim>\<open>Map\<close> from client sockets to their \<open>meta\<close>, iterated in insertion
  order; the \<open>meta\<close> of a registered connection is the object its handlers hold.
\<close>

type_synonym store = "string \<rightharpoonup> jsval"

definition inherited :: "string \<Rightarrow> jsval" where
  \<comment> \<open>\<^verbatim>\<open>({})[k]\<close>: what the empty object inherits from \<^verbatim>\<open>Object.prototype\<close>\<close>
  "inherited k =
     (if k = ''__proto__'' then JObj []
      else if k \<in> set [''constructor'', ''__defineGetter__'', ''__defineSetter__'',
                        ''hasOwnProperty'', ''__lookupGetter__'', ''__lookupSetter__'',
                        ''isPrototypeOf'', ''propertyIsEnumerable'', ''toString'', ''valueOf'',
                        ''toLocaleString''] then JFunction
      else JUndefined)"

definition store_get :: "store \<Rightarrow> string \<Rightarrow> jsval" where
  \<comment> \<open>\<^verbatim>\<open>sessionTokenStore[sid]\<close>\<close>
  "store_get st sid = (case st sid of None \<Rightarrow> inherited sid | Some t \<Rightarrow> t)"

type_synonym registry = "(nat \<times> meta) list"

definition Map_set :: "nat \<Rightarrow> meta \<Rightarrow> registry \<Rightarrow> registry" where
  "Map_set k m reg =
     (if k \<in> fst ` set reg then map (\<lambda>(k', m'). if k' = k then (k', m) else (k', m')) reg
      else reg @ [(k, m)])"

definition Map_delete :: "nat \<Rightarrow> registry \<Rightarrow> registry" where
  "Map_delete k reg = filter (\<lambda>(k', m'). k' \<noteq> k) reg"

definition wss_on_connection ::
  "nat \<Rightarrow> socket \<Rightarrow> socket \<Rightarrow> string option \<Rightarrow> store \<Rightarrow> registry \<Rightarrow> conn \<times> registry" where
  \<comment> \<open>\<open>k\<close> and \<open>w\<close>: the accepted client socket; \<open>d\<close>: the socket \<^verbatim>\<open>new WebSocket(derivUrl)\<close>
      gives; \<open>sid\<close>: \<^verbatim>\<open>ws.sessionId\<close>, \<open>None\<close> for \<^verbatim>\<open>null\<close>.\<close>
  "wss_on_connection k w d sid st reg =
     (let tok = (case sid of
                   None \<Rightarrow> JNull
                 | Some s \<Rightarrow> if s \<noteq> [] then store_get st s else JNull);
          m = \<lparr>sessionId = sid, derivWs = Some d, subscribed = {}, accountInfo = JNull,
               authorized = False, pendingRequests = []\<rparr>
      in (\<lparr>wsId = k, ws = w, token = tok, meta = m\<rparr>, Map_set k m reg))"

definition submit :: "nat \<Rightarrow> nat \<Rightarrow> nat \<Rightarrow> jsval \<Rightarrow> jsval \<Rightarrow> meta \<Rightarrow> meta \<times> effect list" where
  \<comment> \<open>\<^verbatim>\<open>POST /api/buy\<close> from \<^verbatim>\<open>const reqId = Date.now()\<close> on: \<open>now\<close> is the clock's value,
      \<open>res\<close> the response object, \<open>found\<close> the connection chosen, registered under \<open>k\<close>.\<close>
  "submit k now res symbol stake found =
     (let buyRequest = JObj [(''buy'', JNum 1), (''price'', stake), (''subscribe'', JNum 0),
                             (''symbol'', symbol)];
          found1 = found\<lparr>pendingRequests := obj_set now res (pendingRequests found)\<rparr>
      in case send_throws (derivWs found1) of
           None \<Rightarrow> (found1, [ToDeriv k buyRequest])
         | Some err \<Rightarrow>
             (found1\<lparr>pendingRequests := obj_delete now (pendingRequests found1)\<rparr>,
              [HttpReply res 500 (JObj [(''ok'', JBool False), (''error'', JStr (message err))])]))"

definition ready_for :: "string \<Rightarrow> meta \<Rightarrow> bool" where
  \<comment> \<open>\<^verbatim>\<open>meta.sessionId === sid && meta.derivWs && meta.authorized\<close>\<close>
  "ready_for sid m = (sessionId m = Some sid \<and> derivWs m \<noteq> None \<and> authorized m)"

definition post_api_buy ::
  "nat \<Rightarrow> nat \<Rightarrow> string option \<Rightarrow> jsval \<Rightarrow> store \<Rightarrow> registry \<Rightarrow> (registry \<times> effect list) outcome" where
  \<comment> \<open>\<open>cookie\<close>: \<^verbatim>\<open>req.cookies['SESSION_ID']\<close>; \<open>body\<close>: \<^verbatim>\<open>req.body\<close>. The loop stops at the
      first entry that is ready, and \<open>found\<close> is that entry's object.\<close>
  "post_api_buy now res cookie body st reg =
     (case cookie of
        None \<Rightarrow> Returned (reg, [HttpReply res 401 (JObj [(''ok'', JBool False), (''error'', JStr ''not logged'')])])
      | Some sid \<Rightarrow>
          if sid \<noteq> [] \<and> truthy (store_get st sid) then
            (if nullish body then
               Threw (TypeError ''Cannot destructure property of null or undefined'') (reg, [])
             else if truthy (js_prop body ''symbol'') \<and> truthy (js_prop body ''stake'') then
               (case dropWhile (\<lambda>(k, m). \<not> ready_for sid m) reg of
                  [] \<Rightarrow>
                    Returned (reg, [HttpReply res 500
                      (JObj [(''ok'', JBool False), (''error'', JStr ''deriv connection not ready'')])])
                | (k, found) # rest \<Rightarrow>
                    (case submit k now res (js_prop body ''symbol'') (js_prop body ''stake'') found of
                       (found', effs) \<Rightarrow>
                         Returned
                           (takeWhile (\<lambda>(k, m). \<not> ready_for sid m) reg @ (k, found') # rest, effs)))
             else Returned (reg, [HttpReply res 400
                    (JObj [(''ok'', JBool False), (''error'', JStr ''missing params'')])]))
          else Returned (reg, [HttpReply res 401
                 (JObj [(''ok'', JBool False), (''error'', JStr ''not logged'')])]))"

definition get_me :: "nat \<Rightarrow> string option \<Rightarrow> store \<Rightarrow> registry \<Rightarrow> effect list" where
  "get_me res cookie st reg =
     (case cookie of
        None \<Rightarrow> [HttpReply res 401 (JObj [(''authorized'', JBool False)])]
      | Some sid \<Rightarrow>
          if sid \<noteq> [] \<and> truthy (store_get st sid) then
            (case find (\<lambda>(k, m). sessionId m = Some sid \<and> truthy (accountInfo m)) reg of
               Some (k, m) \<Rightarrow>
                 [HttpReply res 200 (JObj [(''authorized'', JBool True), (''account'', accountInfo m)])]
             | None \<Rightarrow>
                 [HttpReply res 200 (JObj [(''authorized'', JBool True), (''account'', JNull)])])
          else [HttpReply res 401 (JObj [(''authorized'', JBool False)])])"

section \<open>The proxy with trading: the life of one connection\<close>

text \<open>
  The events of one connection after \<^verbatim>\<open>wss.on('connection')\<close>. \<open>Library w d\<close> is the
  socket library changing what the two sockets answer (a socket opens or closes, its
  \<^verbatim>\<open>send\<close> starts or stops throwing); \<open>Buy now res symbol stake sid\<close> is a
  \<^verbatim>\<open>POST /api/buy\<close> of session \<open>sid\<close> that passed its checks and whose loop reaches this
  connection. An exception that leaves a handler ends the run of that handler; the
  events that follow are handled as usual (a process that stops instead has done a part
  of what is described here).
\<close>

datatype event =
    DerivOpen
  | DerivMessage "jsval option"
  | DerivClose
  | DerivError
  | ClientMessage "jsval option"
  | ClientClose
  | Buy nat nat jsval jsval string
  | Library socket socket

fun finish :: "'a outcome \<Rightarrow> 'a" where
  "finish (Returned r) = r"
| "finish (Threw e r) = r"

fun step :: "event \<Rightarrow> conn \<Rightarrow> conn \<times> effect list" where
  "step DerivOpen c = finish (derivWs_on_open c)"
| "step (DerivMessage data) c = finish (derivWs_on_message data c)"
| "step DerivClose c = (c, [])"
| "step DerivError c = (c, [])"
| "step (ClientMessage raw) c = ws_on_message raw c"
| "step ClientClose c = ws_on_close c"
| "step (Buy now res symbol stake sid) c =
     (if ready_for sid (meta c) then
        (case submit (wsId c) now res symbol stake (meta c) of
           (m, effs) \<Rightarrow> (c\<lparr>meta := m\<rparr>, effs))
      else (c, []))"
| "step (Library w d) c =
     (c\<lparr>ws := w, meta := (meta c)\<lparr>derivWs := map_option (\<lambda>old. d) (derivWs (meta c))\<rparr>\<rparr>, [])"

fun run :: "event list \<Rightarrow> conn \<Rightarrow> conn \<times> effect list" where
  "run [] c = (c, [])"
| "run (e # es) c =
     (case step e c of
        (c1, effs1) \<Rightarrow> (case run es c1 of (c2, effs2) \<Rightarrow> (c2, effs1 @ effs2)))"

section \<open>The simple proxy\<close>

text \<open>
  \<^verbatim>\<open>backend/server.js\<close> is the proxy without trading. Its \<^verbatim>\<open>clientMap\<close> entry holds
  the session id and the \<^verbatim>\<open>subscribed\<close> set (and the upstream socket, the same object
  as the handlers' \<^verbatim>\<open>derivWs\<close>); \<open>p_entry\<close> is what \<^verbatim>\<open>clientMap.get(ws)\<close> gives, \<open>None\<close>
  once the close handler has removed it.
\<close>

record client_entry =
  e_sessionId :: "string option"
  e_subscribed :: "jsval set"

record proxy =
  p_wsId :: nat
  p_ws :: socket
  p_derivWs :: socket
  p_token :: jsval
  p_entry :: "client_entry option"

text \<open>
  \<^verbatim>\<open>Set.prototype.delete\<close> compares primitives by value and objects by identity: an
  object or array that was just parsed is no member of the set, so nothing is removed.
\<close>

fun is_object :: "jsval \<Rightarrow> bool" where
  "is_object (JArr xs) = True"
| "is_object (JObj kvs) = True"
| "is_object JFunction = True"
| "is_object v = False"

definition Set_delete :: "jsval \<Rightarrow> jsval set \<Rightarrow> jsval set" where
  "Set_delete v S = (if is_object v then S else S - {v})"

definition proxy_on_connection ::
  "nat \<Rightarrow> socket \<Rightarrow> socket \<Rightarrow> string option \<Rightarrow> store \<Rightarrow> proxy" where
  "proxy_on_connection k w d sid st =
     (let tok = (case sid of
                   None \<Rightarrow> JNull
                 | Some s \<Rightarrow> if s \<noteq> [] then store_get st s else JNull)
      in \<lparr>p_wsId = k, p_ws = w, p_derivWs = d, p_token = tok,
          p_entry = Some \<lparr>e_sessionId = sid, e_subscribed = {}\<rparr>\<rparr>)"

definition proxy_derivWs_on_open :: "proxy \<Rightarrow> (proxy \<times> effect list) outcome" where
  "proxy_derivWs_on_open c =
     (if truthy (p_token c) then
        (case sendFails (p_derivWs c) of
           Some m \<Rightarrow> Threw (Error m) (c, [])
         | None \<Rightarrow>
             (case sendFails (p_ws c) of
                Some m \<Rightarrow>
                  Threw (Error m) (c, [ToDeriv (p_wsId c) (JObj [(''authorize'', p_token c)])])
              | None \<Rightarrow>
                  Returned (c, [ToDeriv (p_wsId c) (JObj [(''authorize'', p_token c)]),
                                ToClient (p_wsId c) (JObj [(''type'', JStr ''authorized'')])])))
      else Returned (c, []))"

definition proxy_derivWs_on_message :: "jsval option \<Rightarrow> proxy \<Rightarrow> proxy \<times> effect list" where
  \<comment> \<open>Everything is inside \<^verbatim>\<open>try\<close>.\<close>
  "proxy_derivWs_on_message data c =
     (case data of
        None \<Rightarrow> (c, [])
      | Some msg \<Rightarrow>
          if nullish msg then (c, [])
          else if truthy (js_prop msg ''tick'') then
            (case sendFails (p_ws c) of
               Some m \<Rightarrow> (c, [])
             | None \<Rightarrow>
                 (c, [ToClient (p_wsId c) (tick_event msg)]))
          else (c, []))"

definition proxy_ws_on_message :: "jsval option \<Rightarrow> proxy \<Rightarrow> proxy \<times> effect list" where
  \<comment> \<open>Everything is inside \<^verbatim>\<open>try\<close>; the upstream request is sent before the set changes.\<close>
  "proxy_ws_on_message raw c =
     (case raw of
        None \<Rightarrow> (c, [])
      | Some msg \<Rightarrow>
          if nullish msg then (c, [])
          else if js_prop msg ''type'' = JStr ''config'' then (c, [])
          else if js_prop msg ''type'' = JStr ''subscribe'' \<and> truthy (js_prop msg ''symbol'') then
            (let req = JObj [(''ticks'', js_prop msg ''symbol''), (''subscribe'', JNum 1)]
             in case sendFails (p_derivWs c) of
                  Some m \<Rightarrow> (c, [])
                | None \<Rightarrow>
                    (case p_entry c of
                       None \<Rightarrow> (c, [ToDeriv (p_wsId c) req])
                     | Some en \<Rightarrow>
                         (let c1 = c\<lparr>p_entry := Some (en\<lparr>e_subscribed :=
                                        insert (js_prop msg ''symbol'') (e_subscribed en)\<rparr>)\<rparr>
                          in case sendFails (p_ws c) of
                               Some m \<Rightarrow> (c1, [ToDeriv (p_wsId c) req])
                             | None \<Rightarrow>
                                 (c1, [ToDeriv (p_wsId c) req,
                                       ToClient (p_wsId c)
                                         (JObj [(''type'', JStr ''subscribed''),
                                                (''symbol'', js_prop msg ''symbol'')])]))))
          else if js_prop msg ''type'' = JStr ''unsubscribe'' \<and> truthy (js_prop msg ''symbol'') then
            (let req = JObj [(''forget'', JStr ''ticks'')]
             in case sendFails (p_derivWs c) of
                  Some m \<Rightarrow> (c, [])
                | None \<Rightarrow>
                    (case p_entry c of
                       None \<Rightarrow> (c, [ToDeriv (p_wsId c) req])
                     | Some en \<Rightarrow>
                         (let c1 = c\<lparr>p_entry := Some (en\<lparr>e_subscribed :=
                                        Set_delete (js_prop msg ''symbol'') (e_subscribed en)\<rparr>)\<rparr>
                          in case sendFails (p_ws c) of
                               Some m \<Rightarrow> (c1, [ToDeriv (p_wsId c) req])
                             | None \<Rightarrow>
                                 (c1, [ToDeriv (p_wsId c) req,
                                       ToClient (p_wsId c)
                                         (JObj [(''type'', JStr ''unsubscribed''),
                                                (''symbol'', js_prop msg ''symbol'')])]))))
          else (c, []))"

definition proxy_ws_on_close :: "proxy \<Rightarrow> proxy \<times> effect list" where
  "proxy_ws_on_close c =
     (case p_entry c of
        None \<Rightarrow> (c, [])
      | Some en \<Rightarrow> (c\<lparr>p_entry := None\<rparr>, [CloseDeriv (p_wsId c)]))"

text \<open>The same events; this server has no \<^verbatim>\<open>/api/buy\<close> route, so \<open>Buy\<close> does nothing.\<close>

fun proxy_step :: "event \<Rightarrow> proxy \<Rightarrow> proxy \<times> effect list" where
  "proxy_step DerivOpen c = finish (proxy_derivWs_on_open c)"
| "proxy_step (DerivMessage data) c = proxy_derivWs_on_message data c"
| "proxy_step DerivClose c = (c, [])"
| "proxy_step DerivError c = (c, [])"
| "proxy_step (ClientMessage raw) c = proxy_ws_on_message raw c"
| "proxy_step ClientClose c = proxy_ws_on_close c"
| "proxy_step (Buy now res symbol stake sid) c = (c, [])"
| "proxy_step (Library w d) c = (c\<lparr>p_ws := w, p_derivWs := d\<rparr>, [])"

fun proxy_run :: "event list \<Rightarrow> proxy \<Rightarrow> proxy \<times> effect list" where
  "proxy_run [] c = (c, [])"
| "proxy_run (e # es) c =
     (case proxy_step e c of
        (c1, effs1) \<Rightarrow> (case proxy_run es c1 of (c2, effs2) \<Rightarrow> (c2, effs1 @ effs2)))"

section \<open>Reading the effects\<close>

fun written :: "jsval \<Rightarrow> bool" where
  \<comment> \<open>a property value that \<^verbatim>\<open>JSON.stringify\<close> writes\<close>
  "written JUndefined = False"
| "written JFunction = False"
| "written v = True"

fun is_authorize_request :: "effect \<Rightarrow> bool" where
  \<comment> \<open>a request handed to the upstream socket whose text has an \<^verbatim>\<open>authorize\<close> key\<close>
  "is_authorize_request (ToDeriv k v) = written (js_prop v ''authorize'')"
| "is_authorize_request e = False"

fun is_authorized_event :: "effect \<Rightarrow> bool" where
  \<comment> \<open>a message of type \<^verbatim>\<open>authorized\<close> sent to the client\<close>
  "is_authorized_event (ToClient k v) = (js_prop v ''type'' = JStr ''authorized'')"
| "is_authorized_event e = False"

fun is_upstream_send :: "effect \<Rightarrow> bool" where
  "is_upstream_send (ToDeriv k v) = True"
| "is_upstream_send e = False"

fun is_resolver_reply :: "effect \<Rightarrow> bool" where
  \<comment> \<open>what a resolver sends when it is called: \<^verbatim>\<open>res.json({ok:true, result: resp})\<close>\<close>
  "is_resolver_reply (HttpReply r s v) = (s = 200 \<and> js_prop v ''ok'' = JBool True)"
| "is_resolver_reply e = False"

section \<open>Facts about the models\<close>

lemmas handler_defs = derivWs_on_message_def derivWs_on_open_def ws_on_message_def ws_on_close_def
  ws_sends_def send_throws_def submit_def

lemmas proxy_defs = proxy_derivWs_on_open_def proxy_derivWs_on_message_def proxy_ws_on_message_def
  proxy_ws_on_close_def

lemma truthy_not_nullish: "truthy (js_prop v k) \<Longrightarrow> \<not> nullish v"
  by (cases v) auto

lemma js_prop_str_not_nullish: "js_prop v k = JStr s \<Longrightarrow> \<not> nullish v"
  by (cases v) auto

subsection \<open>The pending table\<close>

lemma mset_entries: "mset (entries obj) = mset obj"
  by (simp add: entries_def)

lemma set_entries: "set (entries obj) = set obj"
  by (metis mset_entries set_mset_mset)

lemma resolve_all_eq:
  "resolve_all msg es (pend, effs) =
     (filter (\<lambda>(k, v). k \<notin> fst ` set es) pend,
      effs @ map (\<lambda>(k, cb). HttpReply cb 200 (JObj [(''ok'', JBool True), (''result'', msg)])) es)"
proof (induction es arbitrary: pend effs)
  case Nil
  show ?case by simp
next
  case (Cons e es)
  obtain k cb where e: "e = (k, cb)" by (cases e)
  have "filter (\<lambda>(k', v). k' \<notin> fst ` set es) (obj_delete k pend) =
        filter (\<lambda>(k', v). k' \<notin> fst ` set (e # es)) pend"
    unfolding obj_delete_def e by (induction pend) auto
  then show ?case
    by (simp add: e Cons.IH)
qed

lemma resolve_all_entries:
  "resolve_all msg (entries pend) (pend, effs) =
     ([], effs @ map (\<lambda>(k, cb). HttpReply cb 200 (JObj [(''ok'', JBool True), (''result'', msg)]))
                   (entries pend))"
proof -
  have "filter (\<lambda>(k, v). k \<notin> fst ` set (entries pend)) pend = []"
    by (auto simp: set_entries filter_empty_conv intro: rev_image_eqI)
  then show ?thesis by (simp add: resolve_all_eq)
qed

lemma obj_delete_obj_set: "obj_delete k (obj_set k v obj) = obj_delete k obj"
proof -
  have "filter (\<lambda>(k', v'). k' \<noteq> k) (map (\<lambda>(k', v'). if k' = k then (k', v) else (k', v')) obj) =
        filter (\<lambda>(k', v'). k' \<noteq> k) obj"
    by (induction obj) auto
  then show ?thesis
    by (simp add: obj_delete_def obj_set_def)
qed

lemma obj_delete_absent: "k \<notin> fst ` set (obj_delete k obj)"
  by (auto simp: obj_delete_def)

subsection \<open>The token of a connection never changes\<close>

lemma step_token: "token (fst (step e c)) = token c"
  by (cases e)
    (auto simp: handler_defs resolve_all_entries Let_def split: option.splits prod.splits)

lemma step_no_authorize:
  "\<not> truthy (token c) \<Longrightarrow> \<not> list_ex is_authorize_request (snd (step e c))"
  by (cases e)
    (auto simp: handler_defs resolve_all_entries tick_event_def Let_def list_ex_iff
          split: option.splits prod.splits)

lemma run_no_authorize:
  "\<not> truthy (token c) \<Longrightarrow> \<not> list_ex is_authorize_request (snd (run evs c))"
proof (induction evs arbitrary: c)
  case Nil
  show ?case by simp
next
  case (Cons e evs)
  obtain c1 effs1 where s: "step e c = (c1, effs1)" by (cases "step e c")
  have t: "\<not> truthy (token c1)"
    using step_token [of e c] s Cons.prems by simp
  have "\<not> list_ex is_authorize_request effs1"
    using step_no_authorize [OF Cons.prems, of e] s by simp
  moreover have "\<not> list_ex is_authorize_request (snd (run evs c1))"
    by (rule Cons.IH [OF t])
  ultimately show ?case
    by (auto simp: s split: prod.splits)
qed

lemma proxy_step_token: "p_token (fst (proxy_step e c)) = p_token c"
  by (cases e) (auto simp: proxy_defs Let_def split: option.splits prod.splits)

lemma proxy_step_no_authorize:
  "\<not> truthy (p_token c) \<Longrightarrow> \<not> list_ex is_authorize_request (snd (proxy_step e c))"
  by (cases e)
    (auto simp: proxy_defs tick_event_def Let_def list_ex_iff split: option.splits prod.splits)

lemma proxy_run_no_authorize:
  "\<not> truthy (p_token c) \<Longrightarrow> \<not> list_ex is_authorize_request (snd (proxy_run evs c))"
proof (induction evs arbitrary: c)
  case Nil
  show ?case by simp
next
  case (Cons e evs)
  obtain c1 effs1 where s: "proxy_step e c = (c1, effs1)" by (cases "proxy_step e c")
  have t: "\<not> truthy (p_token c1)"
    using proxy_step_token [of e c] s Cons.prems by simp
  have "\<not> list_ex is_authorize_request effs1"
    using proxy_step_no_authorize [OF Cons.prems, of e] s by simp
  moreover have "\<not> list_ex is_authorize_request (snd (proxy_run evs c1))"
    by (rule Cons.IH [OF t])
  ultimately show ?case
    by (auto simp: s split: prod.splits)
qed

text \<open>With a token the request is sent: the property above is not an empty one.\<close>

lemma token_authorizes_on_open:
  "truthy (token c) \<Longrightarrow> token c \<noteq> JFunction \<Longrightarrow> send_throws (derivWs (meta c)) = None \<Longrightarrow>
     list_ex is_authorize_request (snd (step DerivOpen c))"
  by (cases "token c") (simp_all add: derivWs_on_open_def)

subsection \<open>Ticks\<close>

lemma tick_step:
  assumes "sendFails (ws c) = None" "\<not> truthy (js_prop msg ''authorize'')" "truthy (js_prop msg ''tick'')"
  shows "step (DerivMessage (Some msg)) c = (c, [ToClient (wsId c) (tick_event msg)])"
  using assms truthy_not_nullish [of msg "''tick''"]
  by (simp add: derivWs_on_message_def ws_sends_def)

lemma proxy_tick_step:
  assumes "sendFails (p_ws c) = None" "truthy (js_prop msg ''tick'')"
  shows "proxy_step (DerivMessage (Some msg)) c = (c, [ToClient (p_wsId c) (tick_event msg)])"
  using assms truthy_not_nullish [of msg "''tick''"]
  by (simp add: proxy_derivWs_on_message_def)

lemma ticks_run:
  assumes "sendFails (ws c) = None"
    and "\<forall>msg\<in>set msgs. \<not> truthy (js_prop msg ''authorize'') \<and> truthy (js_prop msg ''tick'')"
  shows "run (map (\<lambda>msg. DerivMessage (Some msg)) msgs) c =
           (c, map (\<lambda>msg. ToClient (wsId c) (tick_event msg)) msgs)"
  using assms(2)
proof (induction msgs)
  case Nil
  show ?case by simp
next
  case (Cons m msgs)
  then show ?case
    using tick_step [OF assms(1), of m] by simp
qed

lemma proxy_ticks_run:
  assumes "sendFails (p_ws c) = None"
    and "\<forall>msg\<in>set msgs. truthy (js_prop msg ''tick'')"
  shows "proxy_run (map (\<lambda>msg. DerivMessage (Some msg)) msgs) c =
           (c, map (\<lambda>msg. ToClient (p_wsId c) (tick_event msg)) msgs)"
  using assms(2)
proof (induction msgs)
  case Nil
  show ?case by simp
next
  case (Cons m msgs)
  then show ?case
    using proxy_tick_step [OF assms(1), of m] by simp
qed

subsection \<open>The loops over the registry\<close>

lemma first_ready:
  assumes "\<forall>e\<in>set pre. \<not> ready_for sid (snd e)" and "ready_for sid found"
  shows "dropWhile (\<lambda>(k, m). \<not> ready_for sid m) (pre @ (k, found) # rest) = (k, found) # rest"
    and "takeWhile (\<lambda>(k, m). \<not> ready_for sid m) (pre @ (k, found) # rest) = pre"
  using assms by (induction pre) auto

lemma post_api_buy_found:
  assumes "sid \<noteq> []" and "truthy (store_get st sid)"
    and "truthy (js_prop body ''symbol'')" and "truthy (js_prop body ''stake'')"
    and "\<forall>e\<in>set pre. \<not> ready_for sid (snd e)" and "ready_for sid found"
  shows "post_api_buy now res (Some sid) body st (pre @ (k, found) # rest) =
           Returned
             (pre @ (k, fst (submit k now res (js_prop body ''symbol'') (js_prop body ''stake'') found)) # rest,
              snd (submit k now res (js_prop body ''symbol'') (js_prop body ''stake'') found))"
  using assms(1-4) truthy_not_nullish [OF assms(3)] first_ready [OF assms(5,6)]
  by (simp add: post_api_buy_def split: prod.splits)

text \<open>
  When no registered connection of the session has a socket and is authorized, the
  request is answered 500 at once and nothing is handed to any upstream socket.
\<close>

lemma post_api_buy_not_ready:
  assumes "sid \<noteq> []" and "truthy (store_get st sid)"
    and "truthy (js_prop body ''symbol'')" and "truthy (js_prop body ''stake'')"
    and "\<forall>e\<in>set reg. \<not> ready_for sid (snd e)"
  shows "post_api_buy now res (Some sid) body st reg =
           Returned (reg, [HttpReply res 500
                      (JObj [(''ok'', JBool False), (''error'', JStr ''deriv connection not ready'')])])"
proof -
  have dw: "dropWhile (\<lambda>(k, m). \<not> ready_for sid m) reg = []"
    using assms(5) by (induction reg) auto
  show ?thesis
    using assms(1-4) truthy_not_nullish [OF assms(3)]
    by (simp add: post_api_buy_def dw del: dropWhile_eq_Nil_conv)
qed

lemma get_me_first:
  assumes "sid \<noteq> []" and "truthy (store_get st sid)"
    and "\<forall>e\<in>set pre. \<not> (sessionId (snd e) = Some sid \<and> truthy (accountInfo (snd e)))"
    and "sessionId m = Some sid" and "truthy (accountInfo m)"
  shows "get_me res (Some sid) st (pre @ (k, m) # rest) =
           [HttpReply res 200 (JObj [(''authorized'', JBool True), (''account'', accountInfo m)])]"
proof -
  have "find (\<lambda>(k, m). sessionId m = Some sid \<and> truthy (accountInfo m)) (pre @ (k, m) # rest) =
          Some (k, m)"
    using assms(3,4,5) by (induction pre) auto
  then show ?thesis
    using assms(1,2) by (simp add: get_me_def)
qed

section \<open>Trade replies resolve every pending request\<close>

text \<open>
  C1. In the proxy with trading, an upstream message that reaches the buy/error branch
  (its \<^verbatim>\<open>authorize\<close> and \<^verbatim>\<open>tick\<close> fields are not truthy, its \<^verbatim>\<open>buy\<close> or \<^verbatim>\<open>error\<close>
  field is) is first sent to the client as \<^verbatim>\<open>{type:'buy_result', result: msg}\<close>; then
  every resolver registered in \<^verbatim>\<open>pendingRequests\<close> at that moment, however many there are,
  is called with that one message, each answering its HTTP caller with
  \<^verbatim>\<open>{ok:true, result: msg}\<close>, and the table is left empty. The entries that are resolved are
  exactly the registered ones. The send to the client is taken not to throw.
\<close>

theorem buy_or_error_resolves_every_pending:
  assumes "\<not> nullish msg"
    and "\<not> truthy (js_prop msg ''authorize'')"
    and "\<not> truthy (js_prop msg ''tick'')"
    and "truthy (js_prop msg ''buy'') \<or> truthy (js_prop msg ''error'')"
    and "sendFails (ws c) = None"
  shows "derivWs_on_message (Some msg) c =
           Returned
             (c\<lparr>meta := (meta c)\<lparr>pendingRequests := []\<rparr>\<rparr>,
              ToClient (wsId c) (JObj [(''type'', JStr ''buy_result''), (''result'', msg)]) #
              map (\<lambda>(k, cb). HttpReply cb 200 (JObj [(''ok'', JBool True), (''result'', msg)]))
                (entries (pendingRequests (meta c))))
         \<and> mset (entries (pendingRequests (meta c))) = mset (pendingRequests (meta c))"
  using assms by (simp add: derivWs_on_message_def resolve_all_entries mset_entries)

text \<open>
  Two trade requests are pending on an authorized connection and one buy reply arrives:
  the client gets the result and both callers are answered with that reply.
\<close>

theorem buy_or_error_resolves_every_pending_witness:
  "derivWs_on_message (Some (JObj [(''buy'', JObj [(''contract_id'', JNum 7)])]))
     \<lparr>wsId = 1, ws = \<lparr>readyState = OPEN, sendFails = None\<rparr>, token = JStr ''abc'',
      meta = \<lparr>sessionId = Some ''S1'', derivWs = Some \<lparr>readyState = OPEN, sendFails = None\<rparr>,
           subscribed = {}, accountInfo = JNull, authorized = True,
           pendingRequests = [(1700000000000, 11), (1700000000001, 12)]\<rparr>\<rparr> =
   Returned
     (\<lparr>wsId = 1, ws = \<lparr>readyState = OPEN, sendFails = None\<rparr>, token = JStr ''abc'',
      meta = \<lparr>sessionId = Some ''S1'', derivWs = Some \<lparr>readyState = OPEN, sendFails = None\<rparr>,
           subscribed = {}, accountInfo = JNull, authorized = True,
           pendingRequests = []\<rparr>\<rparr>,
      [ToClient 1 (JObj [(''type'', JStr ''buy_result''), (''result'', JObj [(''buy'', JObj [(''contract_id'', JNum 7)])])]),
       HttpReply 11 200 (JObj [(''ok'', JBool True), (''result'', JObj [(''buy'', JObj [(''contract_id'', JNum 7)])])]),
       HttpReply 12 200 (JObj [(''ok'', JBool True), (''result'', JObj [(''buy'', JObj [(''contract_id'', JNum 7)])])])])"
  using buy_or_error_resolves_every_pending
    [of "(JObj [(''buy'', JObj [(''contract_id'', JNum 7)])])"
        "\<lparr>wsId = 1, ws = \<lparr>readyState = OPEN, sendFails = None\<rparr>, token = JStr ''abc'',
      meta = \<lparr>sessionId = Some ''S1'', derivWs = Some \<lparr>readyState = OPEN, sendFails = None\<rparr>,
           subscribed = {}, accountInfo = JNull, authorized = True,
           pendingRequests = [(1700000000000, 11), (1700000000001, 12)]\<rparr>\<rparr>"]
  by (simp add: entries_def)

section \<open>Trade submission and the state of the upstream socket\<close>

text \<open>
  C2. The claim asks for an immediate 5xx answer, with nothing handed to an upstream
  socket, whenever no connection of the session is authorized with an open upstream
  socket. The loop of \<^verbatim>\<open>POST /api/buy\<close> tests \<^verbatim>\<open>meta.derivWs\<close> for \<^verbatim>\<open>null\<close> only, where the
  subscribe handler of the same file tests \<^verbatim>\<open>readyState === WebSocket.OPEN\<close>. Here the only
  connection of session S1 is authorized and its upstream socket has closed: the handler
  registers a resolver and calls \<^verbatim>\<open>send\<close> on the closed socket; when that call does not
  throw, no answer is given to the caller at all. Such a connection is reached when the
  upstream socket closes after the authorize answer: the close handler only logs.
\<close>

lemma authorized_with_closed_socket_is_reached:
  "meta (fst (run [Library \<lparr>readyState = OPEN, sendFails = None\<rparr> \<lparr>readyState = OPEN, sendFails = None\<rparr>, DerivOpen,
                   DerivMessage (Some (JObj [(''authorize'', JObj [(''loginid'', JStr ''CR1''), (''currency'', JStr ''USD''), (''balance'', JNum 100)])])),
                   Library \<lparr>readyState = OPEN, sendFails = None\<rparr> \<lparr>readyState = CLOSED, sendFails = None\<rparr>, DerivClose]
               (fst (wss_on_connection 1 \<lparr>readyState = OPEN, sendFails = None\<rparr> \<lparr>readyState = CONNECTING, sendFails = None\<rparr> (Some ''S1'')
                       [''S1'' \<mapsto> JStr ''abc''] [])))) =
   \<lparr>sessionId = Some ''S1'', derivWs = Some \<lparr>readyState = CLOSED, sendFails = None\<rparr>,
           subscribed = {}, accountInfo = JObj [(''loginid'', JStr ''CR1''), (''currency'', JStr ''USD''), (''balance'', JNum 100)], authorized = True,
           pendingRequests = []\<rparr>"
  by (simp add: wss_on_connection_def store_get_def handler_defs Let_def)

theorem buy_on_closed_upstream_socket:
  "post_api_buy 1700000000000 21 (Some ''S1'')
     (JObj [(''symbol'', JStr ''R_100''), (''stake'', JNum 10)])
     [''S1'' \<mapsto> JStr ''abc'']
     [(1, \<lparr>sessionId = Some ''S1'', derivWs = Some \<lparr>readyState = CLOSED, sendFails = None\<rparr>,
           subscribed = {}, accountInfo = JNull, authorized = True,
           pendingRequests = []\<rparr>)] =
   Returned
     ([(1, \<lparr>sessionId = Some ''S1'', derivWs = Some \<lparr>readyState = CLOSED, sendFails = None\<rparr>,
           subscribed = {}, accountInfo = JNull, authorized = True,
           pendingRequests = [(1700000000000, 21)]\<rparr>)],
      [ToDeriv 1 (JObj [(''buy'', JNum 1), (''price'', JNum 10), (''subscribe'', JNum 0), (''symbol'', JStr ''R_100'')])])"
  by (simp add: post_api_buy_def store_get_def ready_for_def submit_def send_throws_def
      obj_set_def obj_delete_def)

section \<open>Unsubscribing\<close>




section \<open>The authorized event\<close>

text \<open>
  The simple proxy tells the client \<^verbatim>\<open>{type:'authorized'}\<close> when the upstream socket
  opens, right after handing the authorize request to it and before any answer from
  upstream.
\<close>

theorem authorized_event_at_upstream_open:
  "proxy_derivWs_on_open
     \<lparr>p_wsId = 1, p_ws = \<lparr>readyState = OPEN, sendFails = None\<rparr>,
      p_derivWs = \<lparr>readyState = OPEN, sendFails = None\<rparr>, p_token = JStr ''abc'',
      p_entry = Some \<lparr>e_sessionId = Some ''S1'', e_subscribed = {}\<rparr>\<rparr> =
   Returned
     (\<lparr>p_wsId = 1, p_ws = \<lparr>readyState = OPEN, sendFails = None\<rparr>,
      p_derivWs = \<lparr>readyState = OPEN, sendFails = None\<rparr>, p_token = JStr ''abc'',
      p_entry = Some \<lparr>e_sessionId = Some ''S1'', e_subscribed = {}\<rparr>\<rparr>,
      [ToDeriv 1 (JObj [(''authorize'', JStr ''abc'')]),
       ToClient 1 (JObj [(''type'', JStr ''authorized'')])])"
  by (simp add: proxy_derivWs_on_open_def)

lemma proxy_message_state: "fst (proxy_derivWs_on_message d p) = p"
  by (simp add: proxy_derivWs_on_message_def split: option.splits)

lemma proxy_message_without_tick:
  "\<not> truthy (js_prop ans ''tick'') \<Longrightarrow> proxy_derivWs_on_message (Some ans) p = (p, [])"
  by (simp add: proxy_derivWs_on_message_def)

lemma proxy_authorized_only_at_open:
  assumes "list_ex is_authorized_event (snd (proxy_step e p))"
  shows "e = DerivOpen \<and> truthy (p_token p)"
  using assms
  by (cases e)
    (auto simp: proxy_defs tick_event_def Let_def list_ex_iff
          split: option.splits prod.splits if_splits)

text \<open>
  C4, as amended. In the proxy with trading, whatever the event and the state of the
  connection, a message of type \<^verbatim>\<open>authorized\<close> goes to the client only when the event is an
  upstream message whose \<^verbatim>\<open>authorize\<close> field is truthy and carries no truthy \<^verbatim>\<open>error\<close>,
  never at upstream socket open. On such a message the bridge sets \<^verbatim>\<open>authorized\<close> and
  stores \<^verbatim>\<open>accountInfo = {loginid, currency, balance}\<close>; then, when the send to the client
  does not throw, it sends the \<^verbatim>\<open>authorized\<close> event with that account followed by
  \<^verbatim>\<open>{type:'balance', balance}\<close>, these two and in that order, and when the send throws it
  has sent nothing. In the simple proxy, a connection with a truthy token whose sends do
  not throw hands the authorize request to the upstream socket when that socket opens and
  at once sends the client a bare \<^verbatim>\<open>{type:'authorized'}\<close>; the opening of the upstream
  socket, with a truthy token, is the only event at which the simple proxy sends a message
  of type \<^verbatim>\<open>authorized\<close>; an upstream message never changes its state, and one without
  a truthy \<^verbatim>\<open>tick\<close> field, as an authorize answer is, sends nothing.
\<close>

theorem authorized_only_on_authorize_success:
  "(list_ex is_authorized_event (snd (step e c)) \<longrightarrow>
      (\<exists>msg. e = DerivMessage (Some msg) \<and> truthy (js_prop msg ''authorize'') \<and>
             \<not> truthy (js_prop (js_prop msg ''authorize'') ''error'')))
   \<and> (truthy (js_prop msg ''authorize'') \<and> \<not> truthy (js_prop (js_prop msg ''authorize'') ''error'') \<longrightarrow>
      derivWs_on_message (Some msg) c =
        (case sendFails (ws c) of
           None \<Rightarrow>
             Returned
               (c\<lparr>meta := (meta c)
                    \<lparr>authorized := True,
                     accountInfo := JObj [(''loginid'', js_prop (js_prop msg ''authorize'') ''loginid''),
                                          (''currency'', js_prop (js_prop msg ''authorize'') ''currency''),
                                          (''balance'', js_prop (js_prop msg ''authorize'') ''balance'')]\<rparr>\<rparr>,
                [ToClient (wsId c)
                   (JObj [(''type'', JStr ''authorized''),
                          (''account'',
                           JObj [(''loginid'', js_prop (js_prop msg ''authorize'') ''loginid''),
                                 (''currency'', js_prop (js_prop msg ''authorize'') ''currency''),
                                 (''balance'', js_prop (js_prop msg ''authorize'') ''balance'')])]),
                 ToClient (wsId c)
                   (JObj [(''type'', JStr ''balance''),
                          (''balance'', js_prop (js_prop msg ''authorize'') ''balance'')])])
         | Some m \<Rightarrow>
             Threw (Error m)
               (c\<lparr>meta := (meta c)
                    \<lparr>authorized := True,
                     accountInfo := JObj [(''loginid'', js_prop (js_prop msg ''authorize'') ''loginid''),
                                          (''currency'', js_prop (js_prop msg ''authorize'') ''currency''),
                                          (''balance'', js_prop (js_prop msg ''authorize'') ''balance'')]\<rparr>\<rparr>,
                [])))
   \<and> (truthy (p_token p) \<and> sendFails (p_derivWs p) = None \<and> sendFails (p_ws p) = None \<longrightarrow>
      proxy_derivWs_on_open p =
        Returned (p, [ToDeriv (p_wsId p) (JObj [(''authorize'', p_token p)]),
                      ToClient (p_wsId p) (JObj [(''type'', JStr ''authorized'')])]))
   \<and> (list_ex is_authorized_event (snd (proxy_step e p)) \<longrightarrow> e = DerivOpen \<and> truthy (p_token p))
   \<and> fst (proxy_derivWs_on_message d p) = p
   \<and> (\<not> truthy (js_prop ans ''tick'') \<longrightarrow> proxy_derivWs_on_message (Some ans) p = (p, []))"
proof (intro conjI impI)
  assume a: "list_ex is_authorized_event (snd (step e c))"
  show "\<exists>msg. e = DerivMessage (Some msg) \<and> truthy (js_prop msg ''authorize'') \<and>
             \<not> truthy (js_prop (js_prop msg ''authorize'') ''error'')"
  proof (cases e)
    case (DerivMessage data)
    with a show ?thesis
      by (cases data)
        (auto simp: handler_defs resolve_all_entries tick_event_def Let_def list_ex_iff
              split: option.splits prod.splits if_splits)
  qed (use a in \<open>auto simp: handler_defs Let_def list_ex_iff split: option.splits prod.splits if_splits\<close>)
next
  assume "truthy (js_prop msg ''authorize'') \<and>
          \<not> truthy (js_prop (js_prop msg ''authorize'') ''error'')"
  then show "derivWs_on_message (Some msg) c =
        (case sendFails (ws c) of
           None \<Rightarrow>
             Returned
               (c\<lparr>meta := (meta c)
                    \<lparr>authorized := True,
                     accountInfo := JObj [(''loginid'', js_prop (js_prop msg ''authorize'') ''loginid''),
                                          (''currency'', js_prop (js_prop msg ''authorize'') ''currency''),
                                          (''balance'', js_prop (js_prop msg ''authorize'') ''balance'')]\<rparr>\<rparr>,
                [ToClient (wsId c)
                   (JObj [(''type'', JStr ''authorized''),
                          (''account'',
                           JObj [(''loginid'', js_prop (js_prop msg ''authorize'') ''loginid''),
                                 (''currency'', js_prop (js_prop msg ''authorize'') ''currency''),
                                 (''balance'', js_prop (js_prop msg ''authorize'') ''balance'')])]),
                 ToClient (wsId c)
                   (JObj [(''type'', JStr ''balance''),
                          (''balance'', js_prop (js_prop msg ''authorize'') ''balance'')])])
         | Some m \<Rightarrow>
             Threw (Error m)
               (c\<lparr>meta := (meta c)
                    \<lparr>authorized := True,
                     accountInfo := JObj [(''loginid'', js_prop (js_prop msg ''authorize'') ''loginid''),
                                          (''currency'', js_prop (js_prop msg ''authorize'') ''currency''),
                                          (''balance'', js_prop (js_prop msg ''authorize'') ''balance'')]\<rparr>\<rparr>,
                []))"
    using truthy_not_nullish [of msg "''authorize''"]
    by (simp add: derivWs_on_message_def ws_sends_def Let_def split: option.splits)
next
  assume "truthy (p_token p) \<and> sendFails (p_derivWs p) = None \<and> sendFails (p_ws p) = None"
  then show "proxy_derivWs_on_open p =
        Returned (p, [ToDeriv (p_wsId p) (JObj [(''authorize'', p_token p)]),
                      ToClient (p_wsId p) (JObj [(''type'', JStr ''authorized'')])])"
    by (simp add: proxy_derivWs_on_open_def)
next
  assume "list_ex is_authorized_event (snd (proxy_step e p))"
  then show "e = DerivOpen" and "truthy (p_token p)"
    using proxy_authorized_only_at_open [of e p] by blast+
next
  show "fst (proxy_derivWs_on_message d p) = p"
    by (rule proxy_message_state)
next
  assume "\<not> truthy (js_prop ans ''tick'')"
  then show "proxy_derivWs_on_message (Some ans) p = (p, [])"
    by (rule proxy_message_without_tick)
qed

text \<open>
  Upstream answers \<^verbatim>\<open>{authorize:{loginid:"CR1",currency:"USD",balance:100}}\<close>: in the proxy
  with trading the client receives the \<^verbatim>\<open>authorized\<close> event and then the balance; the simple
  proxy, which told its client \<^verbatim>\<open>authorized\<close> when the socket opened, does nothing.
\<close>

theorem authorized_only_on_authorize_success_witness:
  "list_ex is_authorized_event
     (snd (step (DerivMessage (Some (JObj [(''authorize'', JObj [(''loginid'', JStr ''CR1''), (''currency'', JStr ''USD''), (''balance'', JNum 100)])])))
        \<lparr>wsId = 1, ws = \<lparr>readyState = OPEN, sendFails = None\<rparr>, token = JStr ''abc'',
      meta = \<lparr>sessionId = Some ''S1'', derivWs = Some \<lparr>readyState = OPEN, sendFails = None\<rparr>,
           subscribed = {}, accountInfo = JNull, authorized = False,
           pendingRequests = []\<rparr>\<rparr>))
   \<and> derivWs_on_message (Some (JObj [(''authorize'', JObj [(''loginid'', JStr ''CR1''), (''currency'', JStr ''USD''), (''balance'', JNum 100)])]))
        \<lparr>wsId = 1, ws = \<lparr>readyState = OPEN, sendFails = None\<rparr>, token = JStr ''abc'',
      meta = \<lparr>sessionId = Some ''S1'', derivWs = Some \<lparr>readyState = OPEN, sendFails = None\<rparr>,
           subscribed = {}, accountInfo = JNull, authorized = False,
           pendingRequests = []\<rparr>\<rparr> =
      Returned
        (\<lparr>wsId = 1, ws = \<lparr>readyState = OPEN, sendFails = None\<rparr>, token = JStr ''abc'',
      meta = \<lparr>sessionId = Some ''S1'', derivWs = Some \<lparr>readyState = OPEN, sendFails = None\<rparr>,
           subscribed = {}, accountInfo = JObj [(''loginid'', JStr ''CR1''), (''currency'', JStr ''USD''), (''balance'', JNum 100)], authorized = True,
           pendingRequests = []\<rparr>\<rparr>,
         [ToClient 1 (JObj [(''type'', JStr ''authorized''), (''account'', JObj [(''loginid'', JStr ''CR1''), (''currency'', JStr ''USD''), (''balance'', JNum 100)])]),
          ToClient 1 (JObj [(''type'', JStr ''balance''), (''balance'', JNum 100)])])
   \<and> proxy_derivWs_on_open \<lparr>p_wsId = 2, p_ws = \<lparr>readyState = OPEN, sendFails = None\<rparr>,
      p_derivWs = \<lparr>readyState = OPEN, sendFails = None\<rparr>, p_token = JStr ''xyz'',
      p_entry = Some \<lparr>e_sessionId = Some ''S1'', e_subscribed = {}\<rparr>\<rparr> =
      Returned
        (\<lparr>p_wsId = 2, p_ws = \<lparr>readyState = OPEN, sendFails = None\<rparr>,
      p_derivWs = \<lparr>readyState = OPEN, sendFails = None\<rparr>, p_token = JStr ''xyz'',
      p_entry = Some \<lparr>e_sessionId = Some ''S1'', e_subscribed = {}\<rparr>\<rparr>,
         [ToDeriv 2 (JObj [(''authorize'', JStr ''xyz'')]), ToClient 2 (JObj [(''type'', JStr ''authorized'')])])
   \<and> list_ex is_authorized_event (snd (proxy_step DerivOpen \<lparr>p_wsId = 2, p_ws = \<lparr>readyState = OPEN, sendFails = None\<rparr>,
      p_derivWs = \<lparr>readyState = OPEN, sendFails = None\<rparr>, p_token = JStr ''xyz'',
      p_entry = Some \<lparr>e_sessionId = Some ''S1'', e_subscribed = {}\<rparr>\<rparr>))
   \<and> proxy_derivWs_on_message (Some (JObj [(''authorize'', JObj [(''loginid'', JStr ''CR1''), (''currency'', JStr ''USD''), (''balance'', JNum 100)])]))
        \<lparr>p_wsId = 2, p_ws = \<lparr>readyState = OPEN, sendFails = None\<rparr>,
      p_derivWs = \<lparr>readyState = OPEN, sendFails = None\<rparr>, p_token = JStr ''xyz'',
      p_entry = Some \<lparr>e_sessionId = Some ''S1'', e_subscribed = {}\<rparr>\<rparr> =
      (\<lparr>p_wsId = 2, p_ws = \<lparr>readyState = OPEN, sendFails = None\<rparr>,
      p_derivWs = \<lparr>readyState = OPEN, sendFails = None\<rparr>, p_token = JStr ''xyz'',
      p_entry = Some \<lparr>e_sessionId = Some ''S1'', e_subscribed = {}\<rparr>\<rparr>, [])"
  using authorized_only_on_authorize_success
    [where e = "DerivMessage (Some (JObj [(''authorize'', JObj [(''loginid'', JStr ''CR1''), (''currency'', JStr ''USD''), (''balance'', JNum 100)])]))"
       and msg = "(JObj [(''authorize'', JObj [(''loginid'', JStr ''CR1''), (''currency'', JStr ''USD''), (''balance'', JNum 100)])])"
       and ans = "(JObj [(''authorize'', JObj [(''loginid'', JStr ''CR1''), (''currency'', JStr ''USD''), (''balance'', JNum 100)])])"
       and d = "Some (JObj [(''authorize'', JObj [(''loginid'', JStr ''CR1''), (''currency'', JStr ''USD''), (''balance'', JNum 100)])])"
       and c = "\<lparr>wsId = 1, ws = \<lparr>readyState = OPEN, sendFails = None\<rparr>, token = JStr ''abc'',
      meta = \<lparr>sessionId = Some ''S1'', derivWs = Some \<lparr>readyState = OPEN, sendFails = None\<rparr>,
           subscribed = {}, accountInfo = JNull, authorized = False,
           pendingRequests = []\<rparr>\<rparr>"
       and p = "\<lparr>p_wsId = 2, p_ws = \<lparr>readyState = OPEN, sendFails = None\<rparr>,
      p_derivWs = \<lparr>readyState = OPEN, sendFails = None\<rparr>, p_token = JStr ''xyz'',
      p_entry = Some \<lparr>e_sessionId = Some ''S1'', e_subscribed = {}\<rparr>\<rparr>"]
  by (simp add: proxy_derivWs_on_open_def)

section \<open>Subscribing\<close>

text \<open>
  C5. A client message of type \<^verbatim>\<open>subscribe\<close> with a truthy symbol, handled while the
  upstream socket is open (the sends not throwing), hands exactly one request
  \<^verbatim>\<open>{ticks: symbol, subscribe: 1}\<close> to the upstream socket, adds the symbol to the
  subscribed set and acknowledges the client with \<^verbatim>\<open>{type:'subscribed', symbol}\<close>. Nothing
  looks the symbol up in the set first: the same message handled twice gives two upstream
  requests. Both servers do so; the simple proxy does not look at the socket's state.
\<close>

theorem subscribe_sends_one_request_each_time:
  assumes "js_prop msg ''type'' = JStr ''subscribe''"
    and "truthy (js_prop msg ''symbol'')"
    and "derivWs (meta c) = Some d" and "readyState d = OPEN" and "sendFails d = None"
    and "sendFails (ws c) = None"
    and "p_entry p = Some en" and "sendFails (p_derivWs p) = None" and "sendFails (p_ws p) = None"
  shows "ws_on_message (Some msg) c =
           (c\<lparr>meta := (meta c)\<lparr>subscribed := insert (js_prop msg ''symbol'') (subscribed (meta c))\<rparr>\<rparr>,
            [ToDeriv (wsId c) (JObj [(''ticks'', js_prop msg ''symbol''), (''subscribe'', JNum 1)]),
             ToClient (wsId c) (JObj [(''type'', JStr ''subscribed''), (''symbol'', js_prop msg ''symbol'')])])
       \<and> snd (run [ClientMessage (Some msg), ClientMessage (Some msg)] c) =
            [ToDeriv (wsId c) (JObj [(''ticks'', js_prop msg ''symbol''), (''subscribe'', JNum 1)]),
             ToClient (wsId c) (JObj [(''type'', JStr ''subscribed''), (''symbol'', js_prop msg ''symbol'')]),
             ToDeriv (wsId c) (JObj [(''ticks'', js_prop msg ''symbol''), (''subscribe'', JNum 1)]),
             ToClient (wsId c) (JObj [(''type'', JStr ''subscribed''), (''symbol'', js_prop msg ''symbol'')])]
       \<and> proxy_ws_on_message (Some msg) p =
           (p\<lparr>p_entry := Some (en\<lparr>e_subscribed := insert (js_prop msg ''symbol'') (e_subscribed en)\<rparr>)\<rparr>,
            [ToDeriv (p_wsId p) (JObj [(''ticks'', js_prop msg ''symbol''), (''subscribe'', JNum 1)]),
             ToClient (p_wsId p) (JObj [(''type'', JStr ''subscribed''), (''symbol'', js_prop msg ''symbol'')])])
       \<and> snd (proxy_run [ClientMessage (Some msg), ClientMessage (Some msg)] p) =
            [ToDeriv (p_wsId p) (JObj [(''ticks'', js_prop msg ''symbol''), (''subscribe'', JNum 1)]),
             ToClient (p_wsId p) (JObj [(''type'', JStr ''subscribed''), (''symbol'', js_prop msg ''symbol'')]),
             ToDeriv (p_wsId p) (JObj [(''ticks'', js_prop msg ''symbol''), (''subscribe'', JNum 1)]),
             ToClient (p_wsId p) (JObj [(''type'', JStr ''subscribed''), (''symbol'', js_prop msg ''symbol'')])]"
proof -
  have nn: "\<not> nullish msg"
    using assms(1) by (rule js_prop_str_not_nullish)
  have one: "ws_on_message (Some msg) c' =
           (c'\<lparr>meta := (meta c')\<lparr>subscribed := insert (js_prop msg ''symbol'') (subscribed (meta c'))\<rparr>\<rparr>,
            [ToDeriv (wsId c') (JObj [(''ticks'', js_prop msg ''symbol''), (''subscribe'', JNum 1)]),
             ToClient (wsId c') (JObj [(''type'', JStr ''subscribed''), (''symbol'', js_prop msg ''symbol'')])])"
    if "derivWs (meta c') = Some d" "sendFails (ws c') = None" for c'
    using that nn assms(1,2,4,5) by (simp add: ws_on_message_def send_throws_def Let_def)
  have pone: "proxy_ws_on_message (Some msg) p' =
           (p'\<lparr>p_entry := Some (en'\<lparr>e_subscribed := insert (js_prop msg ''symbol'') (e_subscribed en')\<rparr>)\<rparr>,
            [ToDeriv (p_wsId p') (JObj [(''ticks'', js_prop msg ''symbol''), (''subscribe'', JNum 1)]),
             ToClient (p_wsId p') (JObj [(''type'', JStr ''subscribed''), (''symbol'', js_prop msg ''symbol'')])])"
    if "p_entry p' = Some en'" "sendFails (p_derivWs p') = None" "sendFails (p_ws p') = None" for p' en'
    using that nn assms(1,2) by (simp add: proxy_ws_on_message_def Let_def)
  show ?thesis
    using one [of c] one [of "c\<lparr>meta := (meta c)\<lparr>subscribed := insert (js_prop msg ''symbol'') (subscribed (meta c))\<rparr>\<rparr>"]
      pone [of p en]
      pone [of "p\<lparr>p_entry := Some (en\<lparr>e_subscribed := insert (js_prop msg ''symbol'') (e_subscribed en)\<rparr>)\<rparr>"
               "en\<lparr>e_subscribed := insert (js_prop msg ''symbol'') (e_subscribed en)\<rparr>"]
      assms(3,6,7,8,9)
    by simp
qed

text \<open>
  The client subscribes to R\_100, which is already in the set: the request goes upstream
  again.
\<close>

theorem subscribe_sends_one_request_each_time_witness:
  "ws_on_message (Some (JObj [(''type'', JStr ''subscribe''), (''symbol'', JStr ''R_100'')]))
     \<lparr>wsId = 1, ws = \<lparr>readyState = OPEN, sendFails = None\<rparr>, token = JStr ''abc'',
      meta = \<lparr>sessionId = Some ''S1'', derivWs = Some \<lparr>readyState = OPEN, sendFails = None\<rparr>,
           subscribed = {JStr ''R_100''}, accountInfo = JNull, authorized = True,
           pendingRequests = []\<rparr>\<rparr> =
   (\<lparr>wsId = 1, ws = \<lparr>readyState = OPEN, sendFails = None\<rparr>, token = JStr ''abc'',
      meta = \<lparr>sessionId = Some ''S1'', derivWs = Some \<lparr>readyState = OPEN, sendFails = None\<rparr>,
           subscribed = {JStr ''R_100''}, accountInfo = JNull, authorized = True,
           pendingRequests = []\<rparr>\<rparr>,
    [ToDeriv 1 (JObj [(''ticks'', JStr ''R_100''), (''subscribe'', JNum 1)]),
     ToClient 1 (JObj [(''type'', JStr ''subscribed''), (''symbol'', JStr ''R_100'')])])
   \<and> proxy_ws_on_message (Some (JObj [(''type'', JStr ''subscribe''), (''symbol'', JStr ''R_100'')]))
       \<lparr>p_wsId = 2, p_ws = \<lparr>readyState = OPEN, sendFails = None\<rparr>,
      p_derivWs = \<lparr>readyState = OPEN, sendFails = None\<rparr>, p_token = JStr ''abc'',
      p_entry = Some \<lparr>e_sessionId = Some ''S1'', e_subscribed = {}\<rparr>\<rparr> =
     (\<lparr>p_wsId = 2, p_ws = \<lparr>readyState = OPEN, sendFails = None\<rparr>,
      p_derivWs = \<lparr>readyState = OPEN, sendFails = None\<rparr>, p_token = JStr ''abc'',
      p_entry = Some \<lparr>e_sessionId = Some ''S1'', e_subscribed = {JStr ''R_100''}\<rparr>\<rparr>,
      [ToDeriv 2 (JObj [(''ticks'', JStr ''R_100''), (''subscribe'', JNum 1)]),
       ToClient 2 (JObj [(''type'', JStr ''subscribed''), (''symbol'', JStr ''R_100'')])])"
  using subscribe_sends_one_request_each_time
    [where msg = "(JObj [(''type'', JStr ''subscribe''), (''symbol'', JStr ''R_100'')])"
       and c = "\<lparr>wsId = 1, ws = \<lparr>readyState = OPEN, sendFails = None\<rparr>, token = JStr ''abc'',
      meta = \<lparr>sessionId = Some ''S1'', derivWs = Some \<lparr>readyState = OPEN, sendFails = None\<rparr>,
           subscribed = {JStr ''R_100''}, accountInfo = JNull, authorized = True,
           pendingRequests = []\<rparr>\<rparr>"
       and d = "\<lparr>readyState = OPEN, sendFails = None\<rparr>"
       and p = "\<lparr>p_wsId = 2, p_ws = \<lparr>readyState = OPEN, sendFails = None\<rparr>,
      p_derivWs = \<lparr>readyState = OPEN, sendFails = None\<rparr>, p_token = JStr ''abc'',
      p_entry = Some \<lparr>e_sessionId = Some ''S1'', e_subscribed = {}\<rparr>\<rparr>"
       and en = "\<lparr>e_sessionId = Some ''S1'', e_subscribed = {}\<rparr>"]
  by simp

section \<open>Ticks are forwarded unchanged and in order\<close>

text \<open>
  C6. For every list of upstream tick messages handled one after the other on a connection
  whose client socket accepts the sends, the client is sent, in the order of arrival, one
  \<^verbatim>\<open>{type:'tick', symbol, quote, epoch}\<close> per message, with the three values of the
  message's \<^verbatim>\<open>tick\<close>, and the connection's state after the run is the state before it. In
  the proxy with trading a tick message is one that does not also carry a truthy
  \<^verbatim>\<open>authorize\<close> field. Both servers do so.
\<close>

theorem ticks_forwarded_in_order:
  assumes "sendFails (ws c) = None"
    and "\<forall>msg\<in>set msgs. \<not> truthy (js_prop msg ''authorize'') \<and> truthy (js_prop msg ''tick'')"
    and "sendFails (p_ws p) = None"
  shows "run (map (\<lambda>msg. DerivMessage (Some msg)) msgs) c =
           (c, map (\<lambda>msg. ToClient (wsId c)
                      (JObj [(''type'', JStr ''tick''),
                             (''symbol'', js_prop (js_prop msg ''tick'') ''symbol''),
                             (''quote'', js_prop (js_prop msg ''tick'') ''quote''),
                             (''epoch'', js_prop (js_prop msg ''tick'') ''epoch'')])) msgs)
       \<and> proxy_run (map (\<lambda>msg. DerivMessage (Some msg)) msgs) p =
           (p, map (\<lambda>msg. ToClient (p_wsId p)
                      (JObj [(''type'', JStr ''tick''),
                             (''symbol'', js_prop (js_prop msg ''tick'') ''symbol''),
                             (''quote'', js_prop (js_prop msg ''tick'') ''quote''),
                             (''epoch'', js_prop (js_prop msg ''tick'') ''epoch'')])) msgs)"
proof -
  have "\<forall>msg\<in>set msgs. truthy (js_prop msg ''tick'')"
    using assms(2) by blast
  then show ?thesis
    using ticks_run [OF assms(1) assms(2)] proxy_ticks_run [OF assms(3)]
    by (simp add: tick_event_def)
qed

text \<open>Two ticks of R\_100 arrive, 963.5 and then 963.7.\<close>

theorem ticks_forwarded_in_order_witness:
  "run [DerivMessage (Some (JObj [(''tick'', JObj [(''symbol'', JStr ''R_100''), (''quote'', JNum 963.5), (''epoch'', JNum 1690000000)])])),
        DerivMessage (Some (JObj [(''tick'', JObj [(''symbol'', JStr ''R_100''), (''quote'', JNum 963.7), (''epoch'', JNum 1690000002)])]))]
     \<lparr>wsId = 1, ws = \<lparr>readyState = OPEN, sendFails = None\<rparr>, token = JStr ''abc'',
      meta = \<lparr>sessionId = Some ''S1'', derivWs = Some \<lparr>readyState = OPEN, sendFails = None\<rparr>,
           subscribed = {JStr ''R_100''}, accountInfo = JNull, authorized = True,
           pendingRequests = []\<rparr>\<rparr> =
   (\<lparr>wsId = 1, ws = \<lparr>readyState = OPEN, sendFails = None\<rparr>, token = JStr ''abc'',
      meta = \<lparr>sessionId = Some ''S1'', derivWs = Some \<lparr>readyState = OPEN, sendFails = None\<rparr>,
           subscribed = {JStr ''R_100''}, accountInfo = JNull, authorized = True,
           pendingRequests = []\<rparr>\<rparr>,
    [ToClient 1 (JObj [(''type'', JStr ''tick''), (''symbol'', JStr ''R_100''), (''quote'', JNum 963.5), (''epoch'', JNum 1690000000)]),
     ToClient 1 (JObj [(''type'', JStr ''tick''), (''symbol'', JStr ''R_100''), (''quote'', JNum 963.7), (''epoch'', JNum 1690000002)])])
   \<and> proxy_run
       [DerivMessage (Some (JObj [(''tick'', JObj [(''symbol'', JStr ''R_100''), (''quote'', JNum 963.5), (''epoch'', JNum 1690000000)])])),
        DerivMessage (Some (JObj [(''tick'', JObj [(''symbol'', JStr ''R_100''), (''quote'', JNum 963.7), (''epoch'', JNum 1690000002)])]))]
       \<lparr>p_wsId = 2, p_ws = \<lparr>readyState = OPEN, sendFails = None\<rparr>,
      p_derivWs = \<lparr>readyState = OPEN, sendFails = None\<rparr>, p_token = JStr ''abc'',
      p_entry = Some \<lparr>e_sessionId = Some ''S1'', e_subscribed = {JStr ''R_100''}\<rparr>\<rparr> =
     (\<lparr>p_wsId = 2, p_ws = \<lparr>readyState = OPEN, sendFails = None\<rparr>,
      p_derivWs = \<lparr>readyState = OPEN, sendFails = None\<rparr>, p_token = JStr ''abc'',
      p_entry = Some \<lparr>e_sessionId = Some ''S1'', e_subscribed = {JStr ''R_100''}\<rparr>\<rparr>,
      [ToClient 2 (JObj [(''type'', JStr ''tick''), (''symbol'', JStr ''R_100''), (''quote'', JNum 963.5), (''epoch'', JNum 1690000000)]),
       ToClient 2 (JObj [(''type'', JStr ''tick''), (''symbol'', JStr ''R_100''), (''quote'', JNum 963.7), (''epoch'', JNum 1690000002)])])"
  using ticks_forwarded_in_order
    [where c = "\<lparr>wsId = 1, ws = \<lparr>readyState = OPEN, sendFails = None\<rparr>, token = JStr ''abc'',
      meta = \<lparr>sessionId = Some ''S1'', derivWs = Some \<lparr>readyState = OPEN, sendFails = None\<rparr>,
           subscribed = {JStr ''R_100''}, accountInfo = JNull, authorized = True,
           pendingRequests = []\<rparr>\<rparr>"
       and p = "\<lparr>p_wsId = 2, p_ws = \<lparr>readyState = OPEN, sendFails = None\<rparr>,
      p_derivWs = \<lparr>readyState = OPEN, sendFails = None\<rparr>, p_token = JStr ''abc'',
      p_entry = Some \<lparr>e_sessionId = Some ''S1'', e_subscribed = {JStr ''R_100''}\<rparr>\<rparr>"
       and msgs = "[(JObj [(''tick'', JObj [(''symbol'', JStr ''R_100''), (''quote'', JNum 963.5), (''epoch'', JNum 1690000000)])]),
                    (JObj [(''tick'', JObj [(''symbol'', JStr ''R_100''), (''quote'', JNum 963.7), (''epoch'', JNum 1690000002)])])]"]
  by simp

section \<open>No token, no authorize request\<close>

text \<open>
  A connection made without a session id, or with a session id that is neither stored nor
  the name of an inherited property, never hands a request with an \<^verbatim>\<open>authorize\<close> key to
  its upstream socket, whatever events follow: sockets opening and closing, upstream and
  client messages, trade submissions, the client leaving. Both servers.
\<close>

lemma unknown_session_never_authorizes:
  assumes "sid = None \<or> (\<exists>s. sid = Some s \<and> st s = None \<and> inherited s = JUndefined)"
  shows "\<not> list_ex is_authorize_request (snd (run evs (fst (wss_on_connection k w d sid st reg))))
       \<and> \<not> list_ex is_authorize_request (snd (proxy_run evs (proxy_on_connection k w d sid st)))"
proof -
  have "\<not> truthy (token (fst (wss_on_connection k w d sid st reg)))"
    using assms by (auto simp: wss_on_connection_def store_get_def Let_def split: if_splits)
  moreover have "\<not> truthy (p_token (proxy_on_connection k w d sid st))"
    using assms by (auto simp: proxy_on_connection_def store_get_def Let_def split: if_splits)
  ultimately show ?thesis
    using run_no_authorize proxy_run_no_authorize by blast
qed

lemma unknown_session_never_authorizes_example:
  "\<not> list_ex is_authorize_request
       (snd (run [Library \<lparr>readyState = OPEN, sendFails = None\<rparr> \<lparr>readyState = OPEN, sendFails = None\<rparr>, DerivOpen,
                  ClientMessage (Some (JObj [(''type'', JStr ''subscribe''), (''symbol'', JStr ''R_100'')])),
                  DerivMessage (Some (JObj [(''tick'', JObj [(''symbol'', JStr ''R_100''), (''quote'', JNum 963.5), (''epoch'', JNum 1690000000)])])),
                  DerivMessage (Some (JObj [(''authorize'', JObj [(''loginid'', JStr ''CR1'')])])),
                  ClientClose]
              (fst (wss_on_connection 1 \<lparr>readyState = OPEN, sendFails = None\<rparr> \<lparr>readyState = CONNECTING, sendFails = None\<rparr> (Some ''S9'')
                      [''S1'' \<mapsto> JStr ''abc''] []))))"
  using unknown_session_never_authorizes
    [where sid = "Some ''S9''" and st = "[''S1'' \<mapsto> JStr ''abc'']" and k = 1
       and w = "\<lparr>readyState = OPEN, sendFails = None\<rparr>" and d = "\<lparr>readyState = CONNECTING, sendFails = None\<rparr>" and reg = "[]"
       and evs = "[Library \<lparr>readyState = OPEN, sendFails = None\<rparr> \<lparr>readyState = OPEN, sendFails = None\<rparr>, DerivOpen,
                  ClientMessage (Some (JObj [(''type'', JStr ''subscribe''), (''symbol'', JStr ''R_100'')])),
                  DerivMessage (Some (JObj [(''tick'', JObj [(''symbol'', JStr ''R_100''), (''quote'', JNum 963.5), (''epoch'', JNum 1690000000)])])),
                  DerivMessage (Some (JObj [(''authorize'', JObj [(''loginid'', JStr ''CR1'')])])),
                  ClientClose]"]
  by (simp add: inherited_def)

text \<open>
  C7. The claim asks that a connection whose session id has no stored token never sends an
  authorize message upstream. The guard of the open handler is \<^verbatim>\<open>if (token)\<close>, and the
  token is \<^verbatim>\<open>sessionTokenStore[sid]\<close>, read from a plain object. Here the store holds a
  token for S1 only and a client connects with the cookie \<^verbatim>\<open>SESSION_ID=__proto__\<close>: the
  token read is \<^verbatim>\<open>Object.prototype\<close>, which is truthy, and when the upstream socket opens
  both servers hand it the request written \<^verbatim>\<open>{"authorize":{}}\<close>; the simple proxy tells
  its client \<^verbatim>\<open>authorized\<close> as well.
\<close>

theorem inherited_session_id_authorizes:
  "snd (run [Library \<lparr>readyState = OPEN, sendFails = None\<rparr> \<lparr>readyState = OPEN, sendFails = None\<rparr>, DerivOpen]
          (fst (wss_on_connection 1 \<lparr>readyState = OPEN, sendFails = None\<rparr> \<lparr>readyState = CONNECTING, sendFails = None\<rparr> (Some ''__proto__'')
                  [''S1'' \<mapsto> JStr ''abc''] []))) =
     [ToDeriv 1 (JObj [(''authorize'', JObj [])])]
   \<and> snd (proxy_run [Library \<lparr>readyState = OPEN, sendFails = None\<rparr> \<lparr>readyState = OPEN, sendFails = None\<rparr>, DerivOpen]
          (proxy_on_connection 1 \<lparr>readyState = OPEN, sendFails = None\<rparr> \<lparr>readyState = CONNECTING, sendFails = None\<rparr> (Some ''__proto__'')
                  [''S1'' \<mapsto> JStr ''abc''])) =
     [ToDeriv 1 (JObj [(''authorize'', JObj [])]), ToClient 1 (JObj [(''type'', JStr ''authorized'')])]
   \<and> is_authorize_request (ToDeriv 1 (JObj [(''authorize'', JObj [])]))"
  by (simp add: wss_on_connection_def proxy_on_connection_def store_get_def inherited_def
      derivWs_on_open_def proxy_derivWs_on_open_def send_throws_def Let_def)

section \<open>Request identifiers\<close>

text \<open>
  C8. The claim asks that two outstanding trade submissions on a connection are registered
  under distinct identifiers. The identifier is \<^verbatim>\<open>Date.now()\<close>, the clock in milliseconds:
  two submissions handled in the same millisecond get the same one. Here the first
  submission, answering on response 21, is registered under 1700000000000; the second,
  answering on response 22 and handled in the same millisecond, takes its place in the
  table, and no resolver is left for response 21: the upstream reply that follows answers
  response 22 only.
\<close>

theorem same_millisecond_overwrites_resolver:
  "post_api_buy 1700000000000 21 (Some ''S1'')
     (JObj [(''symbol'', JStr ''R_100''), (''stake'', JNum 10)])
     [''S1'' \<mapsto> JStr ''abc'']
     [(1, \<lparr>sessionId = Some ''S1'', derivWs = Some \<lparr>readyState = OPEN, sendFails = None\<rparr>,
           subscribed = {}, accountInfo = JNull, authorized = True,
           pendingRequests = []\<rparr>)] =
   Returned
     ([(1, \<lparr>sessionId = Some ''S1'', derivWs = Some \<lparr>readyState = OPEN, sendFails = None\<rparr>,
           subscribed = {}, accountInfo = JNull, authorized = True,
           pendingRequests = [(1700000000000, 21)]\<rparr>)],
      [ToDeriv 1 (JObj [(''buy'', JNum 1), (''price'', JNum 10), (''subscribe'', JNum 0), (''symbol'', JStr ''R_100'')])])
   \<and> post_api_buy 1700000000000 22 (Some ''S1'')
     (JObj [(''symbol'', JStr ''R_50''), (''stake'', JNum 5)])
     [''S1'' \<mapsto> JStr ''abc'']
     [(1, \<lparr>sessionId = Some ''S1'', derivWs = Some \<lparr>readyState = OPEN, sendFails = None\<rparr>,
           subscribed = {}, accountInfo = JNull, authorized = True,
           pendingRequests = [(1700000000000, 21)]\<rparr>)] =
   Returned
     ([(1, \<lparr>sessionId = Some ''S1'', derivWs = Some \<lparr>readyState = OPEN, sendFails = None\<rparr>,
           subscribed = {}, accountInfo = JNull, authorized = True,
           pendingRequests = [(1700000000000, 22)]\<rparr>)],
      [ToDeriv 1 (JObj [(''buy'', JNum 1), (''price'', JNum 5), (''subscribe'', JNum 0), (''symbol'', JStr ''R_50'')])])
   \<and> derivWs_on_message (Some (JObj [(''buy'', JObj [(''contract_id'', JNum 7)])]))
       \<lparr>wsId = 1, ws = \<lparr>readyState = OPEN, sendFails = None\<rparr>, token = JStr ''abc'',
      meta = \<lparr>sessionId = Some ''S1'', derivWs = Some \<lparr>readyState = OPEN, sendFails = None\<rparr>,
           subscribed = {}, accountInfo = JNull, authorized = True,
           pendingRequests = [(1700000000000, 22)]\<rparr>\<rparr> =
     Returned
       (\<lparr>wsId = 1, ws = \<lparr>readyState = OPEN, sendFails = None\<rparr>, token = JStr ''abc'',
      meta = \<lparr>sessionId = Some ''S1'', derivWs = Some \<lparr>readyState = OPEN, sendFails = None\<rparr>,
           subscribed = {}, accountInfo = JNull, authorized = True,
           pendingRequests = []\<rparr>\<rparr>,
        [ToClient 1 (JObj [(''type'', JStr ''buy_result''), (''result'', JObj [(''buy'', JObj [(''contract_id'', JNum 7)])])]),
         HttpReply 22 200 (JObj [(''ok'', JBool True), (''result'', JObj [(''buy'', JObj [(''contract_id'', JNum 7)])])])])"
  by (simp add: post_api_buy_def store_get_def ready_for_def submit_def send_throws_def
      obj_set_def obj_delete_def derivWs_on_message_def entries_def)

section \<open>A failing upstream write\<close>

text \<open>
  The write of the buy payload throws: the caller is answered 500 with the error's message
  by the handler itself. A resolver that is called answers 200 with
  \<^verbatim>\<open>{ok:true, result}\<close>; no such answer is given, so the resolver was not called.
\<close>

theorem send_failure_does_not_call_resolver:
  "post_api_buy 1700000000000 21 (Some ''S1'')
     (JObj [(''symbol'', JStr ''R_100''), (''stake'', JNum 10)])
     [''S1'' \<mapsto> JStr ''abc'']
     [(1, \<lparr>sessionId = Some ''S1'', derivWs = Some \<lparr>readyState = OPEN, sendFails = Some ''write failed''\<rparr>,
           subscribed = {}, accountInfo = JNull, authorized = True,
           pendingRequests = []\<rparr>)] =
   Returned
     ([(1, \<lparr>sessionId = Some ''S1'', derivWs = Some \<lparr>readyState = OPEN, sendFails = Some ''write failed''\<rparr>,
           subscribed = {}, accountInfo = JNull, authorized = True,
           pendingRequests = []\<rparr>)],
      [HttpReply 21 500 (JObj [(''ok'', JBool False), (''error'', JStr ''write failed'')])])
   \<and> \<not> is_resolver_reply
         (HttpReply 21 500 (JObj [(''ok'', JBool False), (''error'', JStr ''write failed'')]))"
  by (simp add: post_api_buy_def store_get_def ready_for_def submit_def send_throws_def
      obj_set_def obj_delete_def)

text \<open>
  C9, as amended. When a trade submission has passed its checks and found its connection,
  and the write of the buy payload to the upstream socket throws, the handler answers the
  waiting HTTP caller at once with status 500 and \<^verbatim>\<open>{ok:false, error: err.message}\<close>, the
  registered resolver is deleted without being called, and no resolver is left under that
  request's identifier; the other entries of the table and the other connections are
  as they were.
\<close>

theorem send_failure_answers_without_resolver:
  assumes "sid \<noteq> []" and "truthy (store_get st sid)"
    and "truthy (js_prop body ''symbol'')" and "truthy (js_prop body ''stake'')"
    and "\<forall>e\<in>set pre. \<not> ready_for sid (snd e)" and "ready_for sid found"
    and "send_throws (derivWs found) = Some err"
  shows "post_api_buy now res (Some sid) body st (pre @ (k, found) # rest) =
           Returned
             (pre @ (k, found\<lparr>pendingRequests := obj_delete now (pendingRequests found)\<rparr>) # rest,
              [HttpReply res 500 (JObj [(''ok'', JBool False), (''error'', JStr (message err))])])
         \<and> now \<notin> fst ` set (obj_delete now (pendingRequests found))"
  using post_api_buy_found [OF assms(1-6), of now res k rest] assms(7)
  by (simp add: submit_def Let_def obj_delete_obj_set obj_delete_absent)

text \<open>
  Session S1 has the second connection of the registry, with an older request pending; the
  write throws, the caller gets the error and the older request stays pending.
\<close>

theorem send_failure_answers_without_resolver_witness:
  "post_api_buy 1700000000000 21 (Some ''S1'')
     (JObj [(''symbol'', JStr ''R_100''), (''stake'', JNum 10)])
     [''S1'' \<mapsto> JStr ''abc'', ''S2'' \<mapsto> JStr ''def'']
     [(1, \<lparr>sessionId = Some ''S2'', derivWs = Some \<lparr>readyState = OPEN, sendFails = None\<rparr>,
           subscribed = {}, accountInfo = JNull, authorized = True,
           pendingRequests = []\<rparr>),
      (2, \<lparr>sessionId = Some ''S1'', derivWs = Some \<lparr>readyState = OPEN, sendFails = Some ''write failed''\<rparr>,
           subscribed = {}, accountInfo = JNull, authorized = True,
           pendingRequests = [(1699999999000, 20)]\<rparr>)] =
   Returned
     ([(1, \<lparr>sessionId = Some ''S2'', derivWs = Some \<lparr>readyState = OPEN, sendFails = None\<rparr>,
           subscribed = {}, accountInfo = JNull, authorized = True,
           pendingRequests = []\<rparr>),
       (2, \<lparr>sessionId = Some ''S1'', derivWs = Some \<lparr>readyState = OPEN, sendFails = Some ''write failed''\<rparr>,
           subscribed = {}, accountInfo = JNull, authorized = True,
           pendingRequests = [(1699999999000, 20)]\<rparr>)],
      [HttpReply 21 500 (JObj [(''ok'', JBool False), (''error'', JStr ''write failed'')])])"
  using send_failure_answers_without_resolver
    [where sid = "''S1''" and st = "[''S1'' \<mapsto> JStr ''abc'', ''S2'' \<mapsto> JStr ''def'']"
       and body = "(JObj [(''symbol'', JStr ''R_100''), (''stake'', JNum 10)])"
       and pre = "[(1, \<lparr>sessionId = Some ''S2'', derivWs = Some \<lparr>readyState = OPEN, sendFails = None\<rparr>,
           subscribed = {}, accountInfo = JNull, authorized = True,
           pendingRequests = []\<rparr>)]"
       and found = "\<lparr>sessionId = Some ''S1'', derivWs = Some \<lparr>readyState = OPEN, sendFails = Some ''write failed''\<rparr>,
           subscribed = {}, accountInfo = JNull, authorized = True,
           pendingRequests = [(1699999999000, 20)]\<rparr>"
       and err = "Error ''write failed''" and now = 1700000000000 and res = 21 and k = 2
       and rest = "[]"]
  by (simp add: store_get_def ready_for_def send_throws_def obj_delete_def)

section \<open>Several connections of one session\<close>

text \<open>
  C10. Registering a connection does not look for another one of the same session: the new
  entry is added behind the entries already there, whatever their session ids. Among
  several entries, \<^verbatim>\<open>POST /api/buy\<close> takes the first in registration order whose session
  id is the caller's, whose \<^verbatim>\<open>derivWs\<close> is not \<^verbatim>\<open>null\<close> and which is authorized, registers
  the resolver there and hands the buy request to that connection's upstream socket;
  \<^verbatim>\<open>GET /me\<close> answers with the account of the first entry in registration order whose
  session id is the caller's and whose account info is set. The caller's session is one
  the store knows.
\<close>

theorem first_registered_connection_is_chosen:
  assumes "sid \<noteq> []" and "truthy (store_get st sid)"
  shows "(kn \<notin> fst ` set reg \<longrightarrow>
            snd (wss_on_connection kn w d (Some sid) st reg) =
              reg @ [(kn, \<lparr>sessionId = Some sid, derivWs = Some d, subscribed = {},
                           accountInfo = JNull, authorized = False, pendingRequests = []\<rparr>)])
       \<and> (truthy (js_prop body ''symbol'') \<and> truthy (js_prop body ''stake'') \<and>
          (\<forall>e\<in>set pre. \<not> ready_for sid (snd e)) \<and> ready_for sid found \<and>
          send_throws (derivWs found) = None \<longrightarrow>
            post_api_buy now res (Some sid) body st (pre @ (k, found) # rest) =
              Returned
                (pre @ (k, found\<lparr>pendingRequests := obj_set now res (pendingRequests found)\<rparr>) # rest,
                 [ToDeriv k (JObj [(''buy'', JNum 1), (''price'', js_prop body ''stake''),
                                   (''subscribe'', JNum 0), (''symbol'', js_prop body ''symbol'')])]))
       \<and> ((\<forall>e\<in>set pre. \<not> (sessionId (snd e) = Some sid \<and> truthy (accountInfo (snd e)))) \<and>
          sessionId m = Some sid \<and> truthy (accountInfo m) \<longrightarrow>
            get_me res (Some sid) st (pre @ (k, m) # rest) =
              [HttpReply res 200 (JObj [(''authorized'', JBool True), (''account'', accountInfo m)])])"
proof (intro conjI impI)
  assume "kn \<notin> fst ` set reg"
  then show "snd (wss_on_connection kn w d (Some sid) st reg) =
              reg @ [(kn, \<lparr>sessionId = Some sid, derivWs = Some d, subscribed = {},
                           accountInfo = JNull, authorized = False, pendingRequests = []\<rparr>)]"
    by (simp add: wss_on_connection_def Map_set_def Let_def)
next
  assume a: "truthy (js_prop body ''symbol'') \<and> truthy (js_prop body ''stake'') \<and>
          (\<forall>e\<in>set pre. \<not> ready_for sid (snd e)) \<and> ready_for sid found \<and>
          send_throws (derivWs found) = None"
  then have "post_api_buy now res (Some sid) body st (pre @ (k, found) # rest) =
           Returned
             (pre @ (k, fst (submit k now res (js_prop body ''symbol'') (js_prop body ''stake'') found)) # rest,
              snd (submit k now res (js_prop body ''symbol'') (js_prop body ''stake'') found))"
    using post_api_buy_found [OF assms, of body pre found now res k rest] by blast
  then show "post_api_buy now res (Some sid) body st (pre @ (k, found) # rest) =
              Returned
                (pre @ (k, found\<lparr>pendingRequests := obj_set now res (pendingRequests found)\<rparr>) # rest,
                 [ToDeriv k (JObj [(''buy'', JNum 1), (''price'', js_prop body ''stake''),
                                   (''subscribe'', JNum 0), (''symbol'', js_prop body ''symbol'')])])"
    using a by (simp add: submit_def Let_def)
next
  assume "(\<forall>e\<in>set pre. \<not> (sessionId (snd e) = Some sid \<and> truthy (accountInfo (snd e)))) \<and>
          sessionId m = Some sid \<and> truthy (accountInfo m)"
  then show "get_me res (Some sid) st (pre @ (k, m) # rest) =
              [HttpReply res 200 (JObj [(''authorized'', JBool True), (''account'', accountInfo m)])]"
    using get_me_first [OF assms, of pre m res k rest] by blast
qed

text \<open>
  Session S1 opens a second connection while its first is registered; both get
  authorized, with accounts CR1 and CR2. The trade goes to the upstream socket of the
  first and the account reported is CR1.
\<close>

theorem first_registered_connection_is_chosen_witness:
  "snd (wss_on_connection 2 \<lparr>readyState = OPEN, sendFails = None\<rparr> \<lparr>readyState = CONNECTING, sendFails = None\<rparr> (Some ''S1'') [''S1'' \<mapsto> JStr ''abc'']
          [(1, \<lparr>sessionId = Some ''S1'', derivWs = Some \<lparr>readyState = OPEN, sendFails = None\<rparr>,
           subscribed = {}, accountInfo = JObj [(''loginid'', JStr ''CR1'')], authorized = True,
           pendingRequests = []\<rparr>)]) =
     [(1, \<lparr>sessionId = Some ''S1'', derivWs = Some \<lparr>readyState = OPEN, sendFails = None\<rparr>,
           subscribed = {}, accountInfo = JObj [(''loginid'', JStr ''CR1'')], authorized = True,
           pendingRequests = []\<rparr>),
      (2, \<lparr>sessionId = Some ''S1'', derivWs = Some \<lparr>readyState = CONNECTING, sendFails = None\<rparr>,
           subscribed = {}, accountInfo = JNull, authorized = False,
           pendingRequests = []\<rparr>)]
   \<and> post_api_buy 1700000000000 21 (Some ''S1'')
       (JObj [(''symbol'', JStr ''R_100''), (''stake'', JNum 10)])
       [''S1'' \<mapsto> JStr ''abc'']
       [(1, \<lparr>sessionId = Some ''S1'', derivWs = Some \<lparr>readyState = OPEN, sendFails = None\<rparr>,
           subscribed = {}, accountInfo = JObj [(''loginid'', JStr ''CR1'')], authorized = True,
           pendingRequests = []\<rparr>),
        (2, \<lparr>sessionId = Some ''S1'', derivWs = Some \<lparr>readyState = OPEN, sendFails = None\<rparr>,
           subscribed = {}, accountInfo = JObj [(''loginid'', JStr ''CR2'')], authorized = True,
           pendingRequests = []\<rparr>)] =
     Returned
       ([(1, \<lparr>sessionId = Some ''S1'', derivWs = Some \<lparr>readyState = OPEN, sendFails = None\<rparr>,
           subscribed = {}, accountInfo = JObj [(''loginid'', JStr ''CR1'')], authorized = True,
           pendingRequests = [(1700000000000, 21)]\<rparr>),
         (2, \<lparr>sessionId = Some ''S1'', derivWs = Some \<lparr>readyState = OPEN, sendFails = None\<rparr>,
           subscribed = {}, accountInfo = JObj [(''loginid'', JStr ''CR2'')], authorized = True,
           pendingRequests = []\<rparr>)],
        [ToDeriv 1 (JObj [(''buy'', JNum 1), (''price'', JNum 10), (''subscribe'', JNum 0), (''symbol'', JStr ''R_100'')])])
   \<and> get_me 21 (Some ''S1'') [''S1'' \<mapsto> JStr ''abc'']
       [(1, \<lparr>sessionId = Some ''S1'', derivWs = Some \<lparr>readyState = OPEN, sendFails = None\<rparr>,
           subscribed = {}, accountInfo = JObj [(''loginid'', JStr ''CR1'')], authorized = True,
           pendingRequests = []\<rparr>),
        (2, \<lparr>sessionId = Some ''S1'', derivWs = Some \<lparr>readyState = OPEN, sendFails = None\<rparr>,
           subscribed = {}, accountInfo = JObj [(''loginid'', JStr ''CR2'')], authorized = True,
           pendingRequests = []\<rparr>)] =
     [HttpReply 21 200 (JObj [(''authorized'', JBool True), (''account'', JObj [(''loginid'', JStr ''CR1'')])])]"
  using first_registered_connection_is_chosen
    [where sid = "''S1''" and st = "[''S1'' \<mapsto> JStr ''abc'']" and kn = 2
       and reg = "[(1, \<lparr>sessionId = Some ''S1'', derivWs = Some \<lparr>readyState = OPEN, sendFails = None\<rparr>,
           subscribed = {}, accountInfo = JObj [(''loginid'', JStr ''CR1'')], authorized = True,
           pendingRequests = []\<rparr>)]"
       and w = "\<lparr>readyState = OPEN, sendFails = None\<rparr>" and d = "\<lparr>readyState = CONNECTING, sendFails = None\<rparr>"
       and body = "(JObj [(''symbol'', JStr ''R_100''), (''stake'', JNum 10)])"
       and pre = "[]" and k = 1
       and found = "\<lparr>sessionId = Some ''S1'', derivWs = Some \<lparr>readyState = OPEN, sendFails = None\<rparr>,
           subscribed = {}, accountInfo = JObj [(''loginid'', JStr ''CR1'')], authorized = True,
           pendingRequests = []\<rparr>"
       and m = "\<lparr>sessionId = Some ''S1'', derivWs = Some \<lparr>readyState = OPEN, sendFails = None\<rparr>,
           subscribed = {}, accountInfo = JObj [(''loginid'', JStr ''CR1'')], authorized = True,
           pendingRequests = []\<rparr>"
       and rest = "[(2, \<lparr>sessionId = Some ''S1'', derivWs = Some \<lparr>readyState = OPEN, sendFails = None\<rparr>,
           subscribed = {}, accountInfo = JObj [(''loginid'', JStr ''CR2'')], authorized = True,
           pendingRequests = []\<rparr>)]"
       and now = 1700000000000 and res = 21]
  by (simp add: store_get_def ready_for_def send_throws_def obj_set_def)

end
